theory Spec2Isabelle
  imports Main "HOL-Library.Word"
begin

unbundle bit_operations_syntax

section \<open>128-bit vector values and their lanes\<close>

text \<open>
  A vector value is the content of an XMM register: a 128-bit pattern. The lane view is
  chosen by the instruction or by the element type of the \<^verbatim>\<open>VectorArray<T>\<close> through
  which a scalar fallback reads the spilled register; lane 0 is the least significant
  one (little-endian). \<open>lane i v\<close> reads lane \<open>i\<close> at the width of its result type,
  \<open>vec_of f\<close> assembles a vector whose lane \<open>i\<close> is \<open>f i\<close>.
\<close>

type_synonym xword = "128 word"
type_synonym u8 = "8 word"
type_synonym u16 = "16 word"
type_synonym u32 = "32 word"
type_synonym u64 = "64 word"

definition lane :: "nat \<Rightarrow> xword \<Rightarrow> 'a::len word" where
  "lane i v = ucast (drop_bit (i * LENGTH('a)) v)"

definition vec_of_list :: "'a::len word list \<Rightarrow> xword" where
  "vec_of_list ws = word_of_int (horner_sum uint (2 ^ LENGTH('a)) ws)"

definition vec_of :: "(nat \<Rightarrow> 'a::len word) \<Rightarrow> xword" where
  "vec_of f = vec_of_list (map f [0..<128 div LENGTH('a)])"

text \<open>\<open>MConst(xword, lower, upper)\<close>: a 16-byte literal of the constant pool.\<close>

definition mconst :: "u64 \<Rightarrow> u64 \<Rightarrow> xword" where
  "mconst lower upper = vec_of_list [lower, upper]"

text \<open>\<open>std::transform\<close> over one or two \<^verbatim>\<open>VectorArray\<close>s, writing every element of the result.\<close>

definition transform1 :: "('a::len word \<Rightarrow> 'b::len word) \<Rightarrow> xword \<Rightarrow> xword" where
  "transform1 f a = vec_of (\<lambda>i. f (lane i a))"

definition transform2 :: "('a::len word \<Rightarrow> 'b::len word \<Rightarrow> 'c::len word) \<Rightarrow> xword \<Rightarrow> xword \<Rightarrow> xword" where
  "transform2 f a b = vec_of (\<lambda>i. f (lane i a) (lane i b))"

text \<open>An all-ones or all-zeros lane, the result of a packed comparison.\<close>

definition mask_of :: "bool \<Rightarrow> 'a::len word" where
  "mask_of c = (if c then - 1 else 0)"

section \<open>The host: CPU feature oracle, ABI constants, JIT state layout\<close>

datatype cpu_feature =
  tSSE3 | tSSSE3 | tSSE41 | tSSE42 | tAVX | tAVX2
  | tAVX512F | tAVX512VL | tAVX512BW | tAVX512DQ | tAVX512_BITALG

text \<open>
  What the emitters ask of \<^verbatim>\<open>BlockOfCode\<close>: the feature query, the shadow space of the host
  ABI and the offset of \<^verbatim>\<open>fpsr_qc\<close> in the guest state record addressed through \<^verbatim>\<open>r15\<close>.
  Their values are declared outside the translated file, so they are parameters here.
\<close>

record BlockOfCode =
  DoesCpuSupport :: "cpu_feature \<Rightarrow> bool"
  ABI_SHADOW_SPACE :: nat
  offsetof_fpsr_qc :: nat

section \<open>Registers, operands and machine state\<close>

text \<open>
  Registers handed out by the register allocator are named after the C++ variable that
  holds them; two different variables are two different registers. \<open>xmm0\<close> is the
  physical register that \<^verbatim>\<open>pblendvb\<close> reads implicitly.
\<close>

datatype xmm = xmm0 | Xmm string | XmmI string nat

datatype gpr = rsp | ABI_RETURN | ABI_PARAM1 | ABI_PARAM2 | ABI_PARAM3 | ABI_PARAM4 | Gpr string

text \<open>
  Operands: a register, a constant-pool literal, the 16-byte stack cell
  \<^verbatim>\<open>xword[rsp + ABI_SHADOW_SPACE + k * 16]\<close> of the frame opened by the emitted
  \<^verbatim>\<open>sub rsp\<close>, or the cell \<^verbatim>\<open>xword[reg]\<close> a pointer register designates. Pointers into the
  frame are kept as byte offsets from \<^verbatim>\<open>rsp + ABI_SHADOW_SPACE\<close>.
\<close>

datatype operand = R xmm | MConst u64 u64 | StackSlot nat | Ptr gpr

record machine =
  xmm :: "xmm \<Rightarrow> xword"
  gpr :: "gpr \<Rightarrow> u64"
  ZF :: bool
  frame :: "nat \<Rightarrow> xword"
  jit_state :: "nat \<Rightarrow> u8"

primrec rd :: "machine \<Rightarrow> operand \<Rightarrow> xword" where
  "rd s (R r) = xmm s r"
| "rd s (MConst lower upper) = mconst lower upper"
| "rd s (StackSlot k) = frame s k"
| "rd s (Ptr g) = frame s (unat (gpr s g) div 16)"

definition set_xmm :: "xmm \<Rightarrow> xword \<Rightarrow> machine \<Rightarrow> machine" where
  "set_xmm r v s = s\<lparr>xmm := (xmm s)(r := v)\<rparr>"

definition set_gpr :: "gpr \<Rightarrow> u64 \<Rightarrow> machine \<Rightarrow> machine" where
  "set_gpr g v s = s\<lparr>gpr := (gpr s)(g := v)\<rparr>"

definition set_frame :: "nat \<Rightarrow> xword \<Rightarrow> machine \<Rightarrow> machine" where
  "set_frame k v s = s\<lparr>frame := (frame s)(k := v)\<rparr>"

text \<open>
  Host functions reached through \<^verbatim>\<open>CallFunction\<close>. A lambda receives references to the
  spilled buffers; it is modelled by the new content of its result buffer as a function
  of the old content and of the argument buffers (a lambda that writes only some
  elements leaves the others as they were), together with the returned flag where the
  lambda returns \<^verbatim>\<open>bool\<close>. The table lookup helper receives a pointer to an array of
  tables (modelled by the function from the index to the table), its result buffer,
  the indices and the number of tables.
\<close>

datatype host_function =
    Fn1 "xword \<Rightarrow> xword \<Rightarrow> xword"
  | Fn1Sat "xword \<Rightarrow> xword \<Rightarrow> xword \<times> bool"
  | Fn2 "xword \<Rightarrow> xword \<Rightarrow> xword \<Rightarrow> xword"
  | FnTable "(nat \<Rightarrow> xword) \<Rightarrow> xword \<Rightarrow> xword \<Rightarrow> nat \<Rightarrow> xword"

section \<open>Scalar meaning of the packed instructions\<close>

text \<open>
  A packed instruction applies one scalar operation to corresponding lanes, which is
  what \<open>transform2\<close> does. The scalar operations follow the instruction set reference:
  packed averages round up, saturating arithmetic clamps, comparisons give a mask.
\<close>

definition ssat :: "int \<Rightarrow> 'a::len word" where
  "ssat k = word_of_int (max (- (2 ^ (LENGTH('a) - 1))) (min (2 ^ (LENGTH('a) - 1) - 1) k))"

definition usat :: "int \<Rightarrow> 'a::len word" where
  "usat k = word_of_int (max 0 (min (2 ^ LENGTH('a) - 1) k))"

definition pavg :: "'a::len word \<Rightarrow> 'a word \<Rightarrow> 'a word" where
  "pavg x y = of_nat ((unat x + unat y + 1) div 2)"

definition pcmpeq :: "'a::len word \<Rightarrow> 'a word \<Rightarrow> 'a word" where
  "pcmpeq x y = mask_of (x = y)"

definition paddus :: "'a::len word \<Rightarrow> 'a word \<Rightarrow> 'a word" where
  "paddus x y = usat (uint x + uint y)"

definition psubus :: "'a::len word \<Rightarrow> 'a word \<Rightarrow> 'a word" where
  "psubus x y = usat (uint x - uint y)"

definition psubs :: "'a::len word \<Rightarrow> 'a word \<Rightarrow> 'a word" where
  "psubs x y = ssat (sint x - sint y)"

definition pmaxu :: "'a::len word \<Rightarrow> 'a word \<Rightarrow> 'a word" where
  "pmaxu x y = (if x < y then y else x)"

definition pminu :: "'a::len word \<Rightarrow> 'a word \<Rightarrow> 'a word" where
  "pminu x y = (if y < x then y else x)"

definition pmaxs :: "'a::len word \<Rightarrow> 'a word \<Rightarrow> 'a word" where
  "pmaxs x y = (if sint x < sint y then y else x)"

definition pabs :: "'a::len word \<Rightarrow> 'a word" where
  "pabs x = word_of_int \<bar>sint x\<bar>"

definition pmulh :: "'a::len word \<Rightarrow> 'a word \<Rightarrow> 'a word" where
  "pmulh x y = word_of_int ((sint x * sint y) div 2 ^ LENGTH('a))"

section \<open>Instructions that move lanes\<close>

text \<open>\<^verbatim>\<open>movq xmm, xmm\<close>: the low quadword, the high quadword cleared.\<close>

definition sem_movq :: "xword \<Rightarrow> xword" where
  "sem_movq v = vec_of_list [lane 0 v :: u64, 0]"

text \<open>Unpacking interleaves the lanes of the low (or high) halves of destination and source.\<close>

definition sem_punpckl :: "'a::len itself \<Rightarrow> xword \<Rightarrow> xword \<Rightarrow> xword" where
  "sem_punpckl _ d s = vec_of (\<lambda>i. if even i then lane (i div 2) d else (lane (i div 2) s :: 'a word))"

definition sem_punpckh :: "'a::len itself \<Rightarrow> xword \<Rightarrow> xword \<Rightarrow> xword" where
  "sem_punpckh _ d s =
     (let h = 128 div LENGTH('a) div 2
      in vec_of (\<lambda>i. if even i then lane (h + i div 2) d else (lane (h + i div 2) s :: 'a word)))"

text \<open>Packing narrows the lanes of the destination, then those of the source, each read
  as signed and saturated to the range of the narrow lane.\<close>

definition sem_pack :: "(int \<Rightarrow> 'b::len word) \<Rightarrow> 'a::len itself \<Rightarrow> xword \<Rightarrow> xword \<Rightarrow> xword" where
  "sem_pack sat _ d s =
     (let n = 128 div LENGTH('a)
      in vec_of (\<lambda>i. sat (sint (if i < n then lane i d else lane (i - n) s :: 'a word))))"

text \<open>\<^verbatim>\<open>pshufb\<close>: byte \<open>i\<close> of the result is 0 when bit 7 of selector \<open>i\<close> is set, else the
  byte of the destination chosen by the low four bits of the selector.\<close>

definition sem_pshufb :: "xword \<Rightarrow> xword \<Rightarrow> xword" where
  "sem_pshufb d s =
     vec_of (\<lambda>i. if bit (lane i s :: u8) 7 then 0 else lane (unat (lane i s AND 15 :: u8)) d :: u8)"

definition sem_broadcast :: "'a::len itself \<Rightarrow> xword \<Rightarrow> xword" where
  "sem_broadcast _ s = vec_of (\<lambda>_. lane 0 s :: 'a word)"

text \<open>\<^verbatim>\<open>pmuludq\<close>, \<^verbatim>\<open>pmuldq\<close>: the even doublewords, multiplied to quadwords.\<close>

definition sem_pmuludq :: "xword \<Rightarrow> xword \<Rightarrow> xword" where
  "sem_pmuludq d s = vec_of (\<lambda>i. ucast (lane (2 * i) d :: u32) * ucast (lane (2 * i) s :: u32) :: u64)"

definition sem_pmuldq :: "xword \<Rightarrow> xword \<Rightarrow> xword" where
  "sem_pmuldq d s = vec_of (\<lambda>i. scast (lane (2 * i) d :: u32) * scast (lane (2 * i) s :: u32) :: u64)"

text \<open>Shuffles select each lane by two bits of the immediate.\<close>

definition sem_pshufd :: "xword \<Rightarrow> nat \<Rightarrow> xword" where
  "sem_pshufd s imm = vec_of (\<lambda>i. lane ((imm div 4 ^ i) mod 4) s :: u32)"

definition sem_pshuflw :: "xword \<Rightarrow> nat \<Rightarrow> xword" where
  "sem_pshuflw s imm = vec_of (\<lambda>i. if i < 4 then lane ((imm div 4 ^ i) mod 4) s else lane i s :: u16)"

text \<open>\<^verbatim>\<open>pblendvb\<close>: a byte of the source where bit 7 of the same byte of \<open>xmm0\<close> is set.\<close>

definition sem_pblendvb :: "xword \<Rightarrow> xword \<Rightarrow> xword \<Rightarrow> xword" where
  "sem_pblendvb m d s = vec_of (\<lambda>i. if bit (lane i m :: u8) 7 then lane i s else lane i d :: u8)"

definition sem_pinsrq :: "xword \<Rightarrow> u64 \<Rightarrow> nat \<Rightarrow> xword" where
  "sem_pinsrq d g imm = vec_of (\<lambda>i. if i = imm mod 2 then g else lane i d)"

text \<open>\<^verbatim>\<open>pmovmskb\<close>, \<^verbatim>\<open>movmskps\<close>: the sign bits of the bytes (of the doublewords).\<close>

definition sem_pmovmskb :: "xword \<Rightarrow> u64" where
  "sem_pmovmskb v = horner_sum of_bool 2 (map (\<lambda>i. bit (lane i v :: u8) 7) [0..<16])"

definition sem_movmskps :: "xword \<Rightarrow> u64" where
  "sem_movmskps v = horner_sum of_bool 2 (map (\<lambda>i. bit (lane i v :: u32) 31) [0..<4])"

section \<open>Instructions\<close>

text \<open>
  The instructions the emitters append, grouped by operand shape. A mnemonic of the
  first group is used as \<^verbatim>\<open>code.op(xmm, operand)\<close>, a shift as \<^verbatim>\<open>code.op(xmm, imm)\<close>, a
  shuffle as \<^verbatim>\<open>code.op(xmm, operand, imm)\<close> and a three-operand VEX form as
  \<^verbatim>\<open>code.op(xmm, xmm, operand)\<close>; the lower-case abbreviations below write an
  instruction as the assembler call does. Where one C++ overload covers several
  operand classes the instructions are told apart by a suffix (\<open>movq_to_gpr\<close> for
  \<^verbatim>\<open>movq(reg64, xmm)\<close>). Immediates are natural numbers.
\<close>

datatype mnemonic =
    MOVAPS | MOVDQA | PAND | POR | PXOR
  | PADDW | PADDD | PADDQ | PSUBB | PSUBW | PSUBD | PSUBQ
  | PADDUSB | PSUBUSW | PSUBSB | PSUBSW
  | PAVGB | PAVGW
  | PCMPEQB | PCMPEQW | PCMPEQD | PCMPEQQ
  | PMAXUW | PMAXSW | PMINUB
  | PABSB | PABSW | PABSD | VPABSQ
  | PMULLW | PMULHW | PMULUDQ | PMULDQ
  | PUNPCKLBW | PUNPCKLWD | PUNPCKLDQ | PUNPCKLQDQ | PUNPCKHDQ | PUNPCKHQDQ
  | PACKSSWB | PACKUSWB | PACKSSDW | PACKUSDW
  | PSHUFB | VPBROADCASTB | MOVQ | VMOVQ

datatype shift_mnemonic = PSLLQ | PSRLW | PSRLD | PSRLQ | PSRAW | PSRAD

datatype shuffle_mnemonic = PSHUFD | PSHUFLW

datatype vex_mnemonic = VPADDUSB | VPCMPEQB | VPMULLQ

text \<open>\<^verbatim>\<open>byte[r15 + offset]\<close>: a byte of the guest state record.\<close>

datatype mem8 = r15_plus nat

datatype insn =
    SSE mnemonic xmm operand
  | SHIFT shift_mnemonic xmm nat
  | SHUFFLE shuffle_mnemonic xmm operand nat
  | VEX vex_mnemonic xmm xmm operand
  | PBLENDVB xmm operand
  | PTEST xmm operand
  | PEXTRB gpr xmm nat
  | PEXTRW gpr xmm nat
  | PEXTRD gpr xmm nat
  | PEXTRQ gpr xmm nat
  | PINSRQ xmm gpr nat
  | MOVD_to_gpr gpr xmm
  | MOVQ_to_gpr gpr xmm
  | MOVQ_to_xmm xmm gpr
  | PMOVMSKB gpr xmm
  | MOVMSKPS gpr xmm
  | IMUL gpr gpr
  | SHR32 gpr nat
  | TEST32 gpr nat
  | CMP32 gpr nat
  | SETNZ gpr
  | MOV32_imm gpr nat
  | OR_byte mem8 gpr
  | SUB_rsp nat
  | ADD_rsp nat
  | LEA gpr operand
  | MOVAPS_store operand xmm
  | CallFunction host_function

abbreviation "movaps \<equiv> SSE MOVAPS"
abbreviation "movdqa \<equiv> SSE MOVDQA"
abbreviation "pand \<equiv> SSE PAND"
abbreviation "por \<equiv> SSE POR"
abbreviation "pxor \<equiv> SSE PXOR"
abbreviation "paddw \<equiv> SSE PADDW"
abbreviation "paddd \<equiv> SSE PADDD"
abbreviation "paddq \<equiv> SSE PADDQ"
abbreviation "psubb \<equiv> SSE PSUBB"
abbreviation "psubw \<equiv> SSE PSUBW"
abbreviation "psubd \<equiv> SSE PSUBD"
abbreviation "psubq \<equiv> SSE PSUBQ"
abbreviation "paddusb \<equiv> SSE PADDUSB"
abbreviation "psubusw \<equiv> SSE PSUBUSW"
abbreviation "psubsb \<equiv> SSE PSUBSB"
abbreviation "psubsw \<equiv> SSE PSUBSW"
abbreviation "pavgb \<equiv> SSE PAVGB"
abbreviation "pavgw \<equiv> SSE PAVGW"
abbreviation "pcmpeqb \<equiv> SSE PCMPEQB"
abbreviation "pcmpeqw \<equiv> SSE PCMPEQW"
abbreviation "pcmpeqd \<equiv> SSE PCMPEQD"
abbreviation "pcmpeqq \<equiv> SSE PCMPEQQ"
abbreviation "pmaxuw \<equiv> SSE PMAXUW"
abbreviation "pmaxsw \<equiv> SSE PMAXSW"
abbreviation "pminub \<equiv> SSE PMINUB"
abbreviation "pabsb \<equiv> SSE PABSB"
abbreviation "pabsw \<equiv> SSE PABSW"
abbreviation "pabsd \<equiv> SSE PABSD"
abbreviation "vpabsq \<equiv> SSE VPABSQ"
abbreviation "pmullw \<equiv> SSE PMULLW"
abbreviation "pmulhw \<equiv> SSE PMULHW"
abbreviation "pmuludq \<equiv> SSE PMULUDQ"
abbreviation "pmuldq \<equiv> SSE PMULDQ"
abbreviation "punpcklbw \<equiv> SSE PUNPCKLBW"
abbreviation "punpcklwd \<equiv> SSE PUNPCKLWD"
abbreviation "punpckldq \<equiv> SSE PUNPCKLDQ"
abbreviation "punpcklqdq \<equiv> SSE PUNPCKLQDQ"
abbreviation "punpckhdq \<equiv> SSE PUNPCKHDQ"
abbreviation "punpckhqdq \<equiv> SSE PUNPCKHQDQ"
abbreviation "packsswb \<equiv> SSE PACKSSWB"
abbreviation "packuswb \<equiv> SSE PACKUSWB"
abbreviation "packssdw \<equiv> SSE PACKSSDW"
abbreviation "packusdw \<equiv> SSE PACKUSDW"
abbreviation "pshufb \<equiv> SSE PSHUFB"
abbreviation "vpbroadcastb \<equiv> SSE VPBROADCASTB"
abbreviation "movq \<equiv> SSE MOVQ"
abbreviation "vmovq \<equiv> SSE VMOVQ"
abbreviation "psllq \<equiv> SHIFT PSLLQ"
abbreviation "psrlw \<equiv> SHIFT PSRLW"
abbreviation "psrld \<equiv> SHIFT PSRLD"
abbreviation "psrlq \<equiv> SHIFT PSRLQ"
abbreviation "psraw \<equiv> SHIFT PSRAW"
abbreviation "psrad \<equiv> SHIFT PSRAD"
abbreviation "pshufd \<equiv> SHUFFLE PSHUFD"
abbreviation "pshuflw \<equiv> SHUFFLE PSHUFLW"
abbreviation "vpaddusb \<equiv> VEX VPADDUSB"
abbreviation "vpcmpeqb \<equiv> VEX VPCMPEQB"
abbreviation "vpmullq \<equiv> VEX VPMULLQ"
abbreviation "pblendvb \<equiv> PBLENDVB"
abbreviation "ptest \<equiv> PTEST"
abbreviation "pextrb \<equiv> PEXTRB"
abbreviation "pextrw \<equiv> PEXTRW"
abbreviation "pextrd \<equiv> PEXTRD"
abbreviation "pextrq \<equiv> PEXTRQ"
abbreviation "pinsrq \<equiv> PINSRQ"
abbreviation "movd_to_gpr \<equiv> MOVD_to_gpr"
abbreviation "movq_to_gpr \<equiv> MOVQ_to_gpr"
abbreviation "movq_to_xmm \<equiv> MOVQ_to_xmm"
abbreviation "pmovmskb \<equiv> PMOVMSKB"
abbreviation "movmskps \<equiv> MOVMSKPS"
abbreviation "imul \<equiv> IMUL"
abbreviation "shr32 \<equiv> SHR32"
abbreviation "test32 \<equiv> TEST32"
abbreviation "cmp32 \<equiv> CMP32"
abbreviation "setnz \<equiv> SETNZ"
abbreviation "mov32_imm \<equiv> MOV32_imm"
abbreviation "or_byte \<equiv> OR_byte"
abbreviation "sub_rsp \<equiv> SUB_rsp"
abbreviation "add_rsp \<equiv> ADD_rsp"
abbreviation "lea \<equiv> LEA"
abbreviation "movaps_store \<equiv> MOVAPS_store"

text \<open>The new value of the destination of a two-operand instruction, from the old value
  and the source.\<close>

primrec sem :: "mnemonic \<Rightarrow> xword \<Rightarrow> xword \<Rightarrow> xword" where
  "sem MOVAPS d s = s"
| "sem MOVDQA d s = s"
| "sem PAND d s = d AND s"
| "sem POR d s = d OR s"
| "sem PXOR d s = d XOR s"
| "sem PADDW d s = transform2 ((+) :: u16 \<Rightarrow> _) d s"
| "sem PADDD d s = transform2 ((+) :: u32 \<Rightarrow> _) d s"
| "sem PADDQ d s = transform2 ((+) :: u64 \<Rightarrow> _) d s"
| "sem PSUBB d s = transform2 ((-) :: u8 \<Rightarrow> _) d s"
| "sem PSUBW d s = transform2 ((-) :: u16 \<Rightarrow> _) d s"
| "sem PSUBD d s = transform2 ((-) :: u32 \<Rightarrow> _) d s"
| "sem PSUBQ d s = transform2 ((-) :: u64 \<Rightarrow> _) d s"
| "sem PADDUSB d s = transform2 (paddus :: u8 \<Rightarrow> _) d s"
| "sem PSUBUSW d s = transform2 (psubus :: u16 \<Rightarrow> _) d s"
| "sem PSUBSB d s = transform2 (psubs :: u8 \<Rightarrow> _) d s"
| "sem PSUBSW d s = transform2 (psubs :: u16 \<Rightarrow> _) d s"
| "sem PAVGB d s = transform2 (pavg :: u8 \<Rightarrow> _) d s"
| "sem PAVGW d s = transform2 (pavg :: u16 \<Rightarrow> _) d s"
| "sem PCMPEQB d s = transform2 (pcmpeq :: u8 \<Rightarrow> _) d s"
| "sem PCMPEQW d s = transform2 (pcmpeq :: u16 \<Rightarrow> _) d s"
| "sem PCMPEQD d s = transform2 (pcmpeq :: u32 \<Rightarrow> _) d s"
| "sem PCMPEQQ d s = transform2 (pcmpeq :: u64 \<Rightarrow> _) d s"
| "sem PMAXUW d s = transform2 (pmaxu :: u16 \<Rightarrow> _) d s"
| "sem PMAXSW d s = transform2 (pmaxs :: u16 \<Rightarrow> _) d s"
| "sem PMINUB d s = transform2 (pminu :: u8 \<Rightarrow> _) d s"
| "sem PABSB d s = transform1 (pabs :: u8 \<Rightarrow> _) s"
| "sem PABSW d s = transform1 (pabs :: u16 \<Rightarrow> _) s"
| "sem PABSD d s = transform1 (pabs :: u32 \<Rightarrow> _) s"
| "sem VPABSQ d s = transform1 (pabs :: u64 \<Rightarrow> _) s"
| "sem PMULLW d s = transform2 ((*) :: u16 \<Rightarrow> _) d s"
| "sem PMULHW d s = transform2 (pmulh :: u16 \<Rightarrow> _) d s"
| "sem PMULUDQ d s = sem_pmuludq d s"
| "sem PMULDQ d s = sem_pmuldq d s"
| "sem PUNPCKLBW d s = sem_punpckl TYPE(8) d s"
| "sem PUNPCKLWD d s = sem_punpckl TYPE(16) d s"
| "sem PUNPCKLDQ d s = sem_punpckl TYPE(32) d s"
| "sem PUNPCKLQDQ d s = sem_punpckl TYPE(64) d s"
| "sem PUNPCKHDQ d s = sem_punpckh TYPE(32) d s"
| "sem PUNPCKHQDQ d s = sem_punpckh TYPE(64) d s"
| "sem PACKSSWB d s = sem_pack (ssat :: int \<Rightarrow> u8) TYPE(16) d s"
| "sem PACKUSWB d s = sem_pack (usat :: int \<Rightarrow> u8) TYPE(16) d s"
| "sem PACKSSDW d s = sem_pack (ssat :: int \<Rightarrow> u16) TYPE(32) d s"
| "sem PACKUSDW d s = sem_pack (usat :: int \<Rightarrow> u16) TYPE(32) d s"
| "sem PSHUFB d s = sem_pshufb d s"
| "sem VPBROADCASTB d s = sem_broadcast TYPE(8) s"
| "sem MOVQ d s = sem_movq s"
| "sem VMOVQ d s = sem_movq s"

text \<open>Shifts by an immediate act on every lane; a count of the lane width or more
  clears the lane (fills it with the sign for an arithmetic shift), as the word
  operations do.\<close>

primrec sem_shift :: "shift_mnemonic \<Rightarrow> nat \<Rightarrow> xword \<Rightarrow> xword" where
  "sem_shift PSLLQ n d = transform1 (push_bit n :: u64 \<Rightarrow> _) d"
| "sem_shift PSRLW n d = transform1 (drop_bit n :: u16 \<Rightarrow> _) d"
| "sem_shift PSRLD n d = transform1 (drop_bit n :: u32 \<Rightarrow> _) d"
| "sem_shift PSRLQ n d = transform1 (drop_bit n :: u64 \<Rightarrow> _) d"
| "sem_shift PSRAW n d = transform1 (signed_drop_bit n :: u16 \<Rightarrow> _) d"
| "sem_shift PSRAD n d = transform1 (signed_drop_bit n :: u32 \<Rightarrow> _) d"

primrec sem_shuffle :: "shuffle_mnemonic \<Rightarrow> xword \<Rightarrow> nat \<Rightarrow> xword" where
  "sem_shuffle PSHUFD s imm = sem_pshufd s imm"
| "sem_shuffle PSHUFLW s imm = sem_pshuflw s imm"

primrec sem_vex :: "vex_mnemonic \<Rightarrow> xword \<Rightarrow> xword \<Rightarrow> xword" where
  "sem_vex VPADDUSB a b = transform2 (paddus :: u8 \<Rightarrow> _) a b"
| "sem_vex VPCMPEQB a b = transform2 (pcmpeq :: u8 \<Rightarrow> _) a b"
| "sem_vex VPMULLQ a b = transform2 ((*) :: u64 \<Rightarrow> _) a b"

text \<open>
  \<^verbatim>\<open>CallFunction\<close>: the callee finds its buffers through the parameter registers and
  returns its flag in the low byte of the return register. The emitters do not read any
  other register after a call before writing it. Pointers are byte offsets into the
  frame, so the buffer behind a pointer is cell \<open>offset div 16\<close>.
\<close>

definition cell_of :: "machine \<Rightarrow> gpr \<Rightarrow> nat" where
  "cell_of s g = unat (gpr s g) div 16"

primrec call :: "host_function \<Rightarrow> machine \<Rightarrow> machine" where
  "call (Fn1 f) s =
     set_frame (cell_of s ABI_PARAM1)
       (f (frame s (cell_of s ABI_PARAM1)) (frame s (cell_of s ABI_PARAM2))) s"
| "call (Fn1Sat f) s =
     set_gpr ABI_RETURN
       (of_bool (snd (f (frame s (cell_of s ABI_PARAM1)) (frame s (cell_of s ABI_PARAM2)))))
       (set_frame (cell_of s ABI_PARAM1)
          (fst (f (frame s (cell_of s ABI_PARAM1)) (frame s (cell_of s ABI_PARAM2)))) s)"
| "call (Fn2 f) s =
     set_frame (cell_of s ABI_PARAM1)
       (f (frame s (cell_of s ABI_PARAM1)) (frame s (cell_of s ABI_PARAM2))
          (frame s (cell_of s ABI_PARAM3))) s"
| "call (FnTable f) s =
     set_frame (cell_of s ABI_PARAM2)
       (f (\<lambda>k. frame s (cell_of s ABI_PARAM1 + k)) (frame s (cell_of s ABI_PARAM2))
          (frame s (cell_of s ABI_PARAM3)) (unat (gpr s ABI_PARAM4))) s"

primrec address :: "machine \<Rightarrow> operand \<Rightarrow> u64" where
  "address s (R r) = 0"
| "address s (MConst lower upper) = 0"
| "address s (StackSlot k) = of_nat (k * 16)"
| "address s (Ptr g) = gpr s g"

primrec store :: "operand \<Rightarrow> xword \<Rightarrow> machine \<Rightarrow> machine" where
  "store (R r) v s = set_xmm r v s"
| "store (MConst lower upper) v s = s"
| "store (StackSlot k) v s = set_frame k v s"
| "store (Ptr g) v s = set_frame (cell_of s g) v s"

primrec exec :: "insn \<Rightarrow> machine \<Rightarrow> machine" where
  "exec (SSE op d src) s = set_xmm d (sem op (xmm s d) (rd s src)) s"
| "exec (SHIFT op d n) s = set_xmm d (sem_shift op n (xmm s d)) s"
| "exec (SHUFFLE op d src imm) s = set_xmm d (sem_shuffle op (rd s src) imm) s"
| "exec (VEX op d a src) s = set_xmm d (sem_vex op (xmm s a) (rd s src)) s"
| "exec (PBLENDVB d src) s = set_xmm d (sem_pblendvb (xmm s xmm0) (xmm s d) (rd s src)) s"
| "exec (PTEST a src) s = s\<lparr>ZF := (xmm s a AND rd s src = 0)\<rparr>"
| "exec (PEXTRB g r imm) s = set_gpr g (ucast (lane (imm mod 16) (xmm s r) :: u8)) s"
| "exec (PEXTRW g r imm) s = set_gpr g (ucast (lane (imm mod 8) (xmm s r) :: u16)) s"
| "exec (PEXTRD g r imm) s = set_gpr g (ucast (lane (imm mod 4) (xmm s r) :: u32)) s"
| "exec (PEXTRQ g r imm) s = set_gpr g (lane (imm mod 2) (xmm s r)) s"
| "exec (PINSRQ d g imm) s = set_xmm d (sem_pinsrq (xmm s d) (gpr s g) imm) s"
| "exec (MOVD_to_gpr g r) s = set_gpr g (ucast (lane 0 (xmm s r) :: u32)) s"
| "exec (MOVQ_to_gpr g r) s = set_gpr g (lane 0 (xmm s r)) s"
| "exec (MOVQ_to_xmm d g) s = set_xmm d (vec_of_list [gpr s g, 0]) s"
| "exec (PMOVMSKB g r) s = set_gpr g (sem_pmovmskb (xmm s r)) s"
| "exec (MOVMSKPS g r) s = set_gpr g (sem_movmskps (xmm s r)) s"
| "exec (IMUL g h) s = set_gpr g (gpr s g * gpr s h) s"
| "exec (SHR32 g n) s = set_gpr g (ucast (drop_bit (n mod 32) (ucast (gpr s g) :: u32))) s"
| "exec (TEST32 g imm) s = s\<lparr>ZF := ((ucast (gpr s g) :: u32) AND of_nat imm = 0)\<rparr>"
| "exec (CMP32 g imm) s = s\<lparr>ZF := ((ucast (gpr s g) :: u32) = of_nat imm)\<rparr>"
| "exec (SETNZ g) s = set_gpr g ((gpr s g AND NOT 0xFF) OR of_bool (\<not> ZF s)) s"
| "exec (MOV32_imm g n) s = set_gpr g (ucast (of_nat n :: u32)) s"
| "exec (OR_byte m g) s =
     (case m of r15_plus off \<Rightarrow>
        s\<lparr>jit_state := (jit_state s)(off := jit_state s off OR ucast (gpr s g))\<rparr>)"
| "exec (SUB_rsp n) s = set_gpr rsp (gpr s rsp - of_nat n) s"
| "exec (ADD_rsp n) s = set_gpr rsp (gpr s rsp + of_nat n) s"
| "exec (LEA g m) s = set_gpr g (address s m) s"
| "exec (MOVAPS_store dst r) s = store dst (xmm s r) s"
| "exec (CallFunction fn) s = call fn s"

section \<open>What an emitter produces\<close>

text \<open>
  An emitter asks the register allocator for registers holding its arguments
  (\<^verbatim>\<open>UseXmm\<close>, \<^verbatim>\<open>UseScratchXmm\<close>, \<^verbatim>\<open>UseGpr\<close>, \<^verbatim>\<open>UseScratchGpr\<close> of \<^verbatim>\<open>args[i]\<close>), appends instructions to
  the code buffer and binds the result with \<^verbatim>\<open>DefineValue\<close>: to a register, or to the
  binding of one of its own arguments.
\<close>

datatype binding = DefXmm xmm | DefGpr gpr | DefArg nat

record emitted =
  use_xmm :: "(xmm \<times> nat) list"
  use_gpr :: "(gpr \<times> nat) list"
  insns :: "insn list"
  define_value :: binding

text \<open>
  Running emitted code: the allocator has put argument \<open>i\<close> into the registers that use
  it (\<open>xa i\<close> is its content as an XMM register, \<open>ga i\<close> as a general purpose register);
  everything else in the initial machine \<open>s\<close> is arbitrary.
\<close>

definition bind_args :: "emitted \<Rightarrow> (nat \<Rightarrow> xword) \<Rightarrow> (nat \<Rightarrow> u64) \<Rightarrow> machine \<Rightarrow> machine" where
  "bind_args e xa ga s =
     foldr (\<lambda>(g, i). set_gpr g (ga i)) (use_gpr e) (foldr (\<lambda>(r, i). set_xmm r (xa i)) (use_xmm e) s)"

definition run :: "emitted \<Rightarrow> (nat \<Rightarrow> xword) \<Rightarrow> (nat \<Rightarrow> u64) \<Rightarrow> machine \<Rightarrow> machine" where
  "run e xa ga s = foldl (\<lambda>s i. exec i s) (bind_args e xa ga s) (insns e)"

text \<open>The bits held by the binding of the result: an XMM register, a general purpose
  register (shown zero-extended), or the binding of an argument.\<close>

definition result_of :: "emitted \<Rightarrow> (nat \<Rightarrow> xword) \<Rightarrow> (nat \<Rightarrow> u64) \<Rightarrow> machine \<Rightarrow> xword" where
  "result_of e xa ga s =
     (case define_value e of
        DefXmm r \<Rightarrow> xmm (run e xa ga s) r
      | DefGpr g \<Rightarrow> ucast (gpr (run e xa ga s) g)
      | DefArg i \<Rightarrow> xa i)"

text \<open>The low 64 bits of the binding of the result: what a consumer reading the value
  into a 64-bit general purpose register gets.\<close>

definition result64 :: "emitted \<Rightarrow> (nat \<Rightarrow> xword) \<Rightarrow> (nat \<Rightarrow> u64) \<Rightarrow> machine \<Rightarrow> u64" where
  "result64 e xa ga s = ucast (result_of e xa ga s)"

definition fpsr_qc :: "BlockOfCode \<Rightarrow> machine \<Rightarrow> u8" where
  "fpsr_qc code s = jit_state s (offsetof_fpsr_qc code)"

text \<open>A machine whose registers and memory are all zero and a host without any optional
  CPU feature, for concrete runs.\<close>

definition machine0 :: machine where
  "machine0 = \<lparr> xmm = (\<lambda>_. 0), gpr = (\<lambda>_. 0), ZF = False, frame = (\<lambda>_. 0), jit_state = (\<lambda>_. 0) \<rparr>"

definition host0 :: BlockOfCode where
  "host0 = \<lparr> DoesCpuSupport = (\<lambda>_. False), ABI_SHADOW_SPACE = 0, offsetof_fpsr_qc = 0 \<rparr>"

section \<open>Generic emitters and scalar fallbacks\<close>

definition EmitVectorOperation :: "(xmm \<Rightarrow> operand \<Rightarrow> insn) \<Rightarrow> emitted" where
  "EmitVectorOperation fn =
     (let xmm_a = Xmm ''xmm_a''; xmm_b = Xmm ''xmm_b''
      in \<lparr> use_xmm = [(xmm_a, 0), (xmm_b, 1)], use_gpr = [],
           insns = [ fn xmm_a (R xmm_b) ],
           define_value = DefXmm xmm_a \<rparr>)"

definition EmitAVXVectorOperation :: "(xmm \<Rightarrow> xmm \<Rightarrow> operand \<Rightarrow> insn) \<Rightarrow> emitted" where
  "EmitAVXVectorOperation fn =
     (let xmm_a = Xmm ''xmm_a''; xmm_b = Xmm ''xmm_b''
      in \<lparr> use_xmm = [(xmm_a, 0), (xmm_b, 1)], use_gpr = [],
           insns = [ fn xmm_a xmm_a (R xmm_b) ],
           define_value = DefXmm xmm_a \<rparr>)"

definition EmitOneArgumentFallback :: "BlockOfCode \<Rightarrow> (xword \<Rightarrow> xword \<Rightarrow> xword) \<Rightarrow> emitted" where
  "EmitOneArgumentFallback code lambda =
     (let fn = Fn1 lambda;
          stack_space = 2 * 16;
          arg1 = Xmm ''arg1'';
          result = Xmm ''result''
      in \<lparr> use_xmm = [(arg1, 0)], use_gpr = [],
           insns =
             [ sub_rsp (stack_space + ABI_SHADOW_SPACE code),
               lea ABI_PARAM1 (StackSlot 0),
               lea ABI_PARAM2 (StackSlot 1),
               movaps_store (Ptr ABI_PARAM2) arg1,
               CallFunction fn,
               movaps result (StackSlot 0),
               add_rsp (stack_space + ABI_SHADOW_SPACE code) ],
           define_value = DefXmm result \<rparr>)"


definition EmitTwoArgumentFallback :: "BlockOfCode \<Rightarrow> (xword \<Rightarrow> xword \<Rightarrow> xword \<Rightarrow> xword) \<Rightarrow> emitted" where
  "EmitTwoArgumentFallback code lambda =
     (let fn = Fn2 lambda;
          stack_space = 3 * 16;
          arg1 = Xmm ''arg1'';
          arg2 = Xmm ''arg2'';
          result = Xmm ''result''
      in \<lparr> use_xmm = [(arg1, 0), (arg2, 1)], use_gpr = [],
           insns =
             [ sub_rsp (stack_space + ABI_SHADOW_SPACE code),
               lea ABI_PARAM1 (StackSlot 0),
               lea ABI_PARAM2 (StackSlot 1),
               lea ABI_PARAM3 (StackSlot 2),
               movaps_store (Ptr ABI_PARAM2) arg1,
               movaps_store (Ptr ABI_PARAM3) arg2,
               CallFunction fn,
               movaps result (StackSlot 0),
               add_rsp (stack_space + ABI_SHADOW_SPACE code) ],
           define_value = DefXmm result \<rparr>)"

section \<open>Dynamic per-lane shifts\<close>

text \<open>
  \<^verbatim>\<open>LogicalVShift<T>(x, y)\<close>. \<open>is_signed\<close> is \<^verbatim>\<open>std::is_signed_v<T>\<close>; the shift amount is the
  low byte of \<open>y\<close> read as \<^verbatim>\<open>s8\<close>. A right shift of a signed \<open>T\<close> is arithmetic, of an
  unsigned \<open>T\<close> logical; the left shift is done on the unsigned type and truncated.
\<close>

definition LogicalVShift :: "bool \<Rightarrow> 'a::len word \<Rightarrow> 'a word \<Rightarrow> 'a word" where
  "LogicalVShift is_signed x y =
     (let shift_amount = sint (ucast y :: 8 word);
          bit_size = int LENGTH('a)
      in if is_signed \<and> shift_amount \<ge> bit_size then 0
         else if is_signed \<and> shift_amount \<le> - bit_size then signed_drop_bit (nat (bit_size - 1)) x
         else if \<not> is_signed \<and> (shift_amount \<le> - bit_size \<or> shift_amount \<ge> bit_size) then 0
         else if shift_amount < 0 then
           (if is_signed then signed_drop_bit (nat (- shift_amount)) x
            else drop_bit (nat (- shift_amount)) x)
         else push_bit (nat shift_amount) x)"

definition EmitVectorLogicalVShiftS8 :: "BlockOfCode \<Rightarrow> emitted" where
  "EmitVectorLogicalVShiftS8 code =
     EmitTwoArgumentFallback code (\<lambda>result a b. transform2 (LogicalVShift True :: u8 \<Rightarrow> _) a b)"

definition EmitVectorLogicalVShiftS16 :: "BlockOfCode \<Rightarrow> emitted" where
  "EmitVectorLogicalVShiftS16 code =
     EmitTwoArgumentFallback code (\<lambda>result a b. transform2 (LogicalVShift True :: u16 \<Rightarrow> _) a b)"

definition EmitVectorLogicalVShiftS32 :: "BlockOfCode \<Rightarrow> emitted" where
  "EmitVectorLogicalVShiftS32 code =
     EmitTwoArgumentFallback code (\<lambda>result a b. transform2 (LogicalVShift True :: u32 \<Rightarrow> _) a b)"

definition EmitVectorLogicalVShiftS64 :: "BlockOfCode \<Rightarrow> emitted" where
  "EmitVectorLogicalVShiftS64 code =
     EmitTwoArgumentFallback code (\<lambda>result a b. transform2 (LogicalVShift True :: u64 \<Rightarrow> _) a b)"

definition EmitVectorLogicalVShiftU8 :: "BlockOfCode \<Rightarrow> emitted" where
  "EmitVectorLogicalVShiftU8 code =
     EmitTwoArgumentFallback code (\<lambda>result a b. transform2 (LogicalVShift False :: u8 \<Rightarrow> _) a b)"

definition EmitVectorLogicalVShiftU16 :: "BlockOfCode \<Rightarrow> emitted" where
  "EmitVectorLogicalVShiftU16 code =
     EmitTwoArgumentFallback code (\<lambda>result a b. transform2 (LogicalVShift False :: u16 \<Rightarrow> _) a b)"

definition EmitVectorLogicalVShiftU32 :: "BlockOfCode \<Rightarrow> emitted" where
  "EmitVectorLogicalVShiftU32 code =
     EmitTwoArgumentFallback code (\<lambda>result a b. transform2 (LogicalVShift False :: u32 \<Rightarrow> _) a b)"

definition EmitVectorLogicalVShiftU64 :: "BlockOfCode \<Rightarrow> emitted" where
  "EmitVectorLogicalVShiftU64 code =
     EmitTwoArgumentFallback code (\<lambda>result a b. transform2 (LogicalVShift False :: u64 \<Rightarrow> _) a b)"

text \<open>
  The contract of the shift in arithmetic terms: \<open>sh\<close> is the shift amount as a signed
  byte, a lane is read as a signed or an unsigned integer, a right shift is a floor
  division by a power of two and a left shift a multiplication, reduced modulo
  \<open>2 ^ bit-width\<close> by \<open>word_of_int\<close>.
\<close>

definition vshift_contract :: "bool \<Rightarrow> 'a::len word \<Rightarrow> 'a word \<Rightarrow> 'a word" where
  "vshift_contract is_signed x y =
     (let sh = sint (ucast y :: 8 word);
          w = int LENGTH('a)
      in if is_signed then
           (if sh \<ge> w then 0
            else if sh \<le> - w then word_of_int (sint x div 2 ^ (LENGTH('a) - 1))
            else if sh < 0 then word_of_int (sint x div 2 ^ nat (- sh))
            else word_of_int (uint x * 2 ^ nat sh))
         else
           (if \<bar>sh\<bar> \<ge> w then 0
            else if sh < 0 then word_of_int (uint x div 2 ^ nat (- sh))
            else word_of_int (uint x * 2 ^ nat sh)))"


section \<open>Halving add\<close>

definition EmitVectorHalvingAddUnsigned :: "nat \<Rightarrow> BlockOfCode \<Rightarrow> emitted" where
  "EmitVectorHalvingAddUnsigned esize code =
     (let a = Xmm ''a''; b = Xmm ''b''; tmp = Xmm ''tmp''
      in \<lparr> use_xmm = [(a, 0), (b, 1)], use_gpr = [],
           insns =
             [ movdqa tmp (R b) ] @
             (if esize = 8 then
                [ pavgb tmp (R a),
                  pxor a (R b),
                  pand a (MConst 0x0101010101010101 0x0101010101010101),
                  psubb tmp (R a) ]
              else if esize = 16 then
                [ pavgw tmp (R a),
                  pxor a (R b),
                  pand a (MConst 0x0001000100010001 0x0001000100010001),
                  psubw tmp (R a) ]
              else if esize = 32 then
                [ pand tmp (R a),
                  pxor a (R b),
                  psrld a 1,
                  paddd tmp (R a) ]
              else []),
           define_value = DefXmm tmp \<rparr>)"

definition EmitVectorHalvingAddU8 :: "BlockOfCode \<Rightarrow> emitted" where
  "EmitVectorHalvingAddU8 code = EmitVectorHalvingAddUnsigned 8 code"

definition EmitVectorHalvingAddU16 :: "BlockOfCode \<Rightarrow> emitted" where
  "EmitVectorHalvingAddU16 code = EmitVectorHalvingAddUnsigned 16 code"

definition EmitVectorHalvingAddU32 :: "BlockOfCode \<Rightarrow> emitted" where
  "EmitVectorHalvingAddU32 code = EmitVectorHalvingAddUnsigned 32 code"

text \<open>The halving add of two unsigned lanes: the sum is taken in the naturals, so it does
  not wrap at the lane width.\<close>

definition halving_add :: "'a::len word \<Rightarrow> 'a word \<Rightarrow> 'a word" where
  "halving_add x y = of_nat ((unat x + unat y) div 2)"

section \<open>Polynomial multiplication\<close>

text \<open>
  \<^verbatim>\<open>PolynomialMultiply<D, T>(lhs, rhs)\<close>: the loop over the bits of \<open>lhs\<close>. In \<^verbatim>\<open>rhs << i\<close> a
  \<open>T\<close> narrower than \<^verbatim>\<open>int\<close> is promoted, so nothing is lost before the conversion to
  \<open>D\<close>; a 64-bit \<open>T\<close> is shifted at its own width.
\<close>

definition PolynomialMultiply :: "'t::len word \<Rightarrow> 't word \<Rightarrow> 'd::len word" where
  "PolynomialMultiply lhs rhs =
     fold (\<lambda>i res. if bit lhs i
                     then res XOR (if LENGTH('t) < 32 then word_of_int (push_bit i (uint rhs))
                                   else ucast (push_bit i rhs))
                     else res)
       [0..<LENGTH('t)] 0"

definition handle_high_bits :: "u64 \<Rightarrow> u64 \<Rightarrow> u64" where
  "handle_high_bits lhs rhs =
     fold (\<lambda>i result. if bit lhs i then result XOR drop_bit (64 - i) rhs else result)
       [1..<64] 0"

definition EmitVectorPolynomialMultiplyLong64 :: "BlockOfCode \<Rightarrow> emitted" where
  "EmitVectorPolynomialMultiplyLong64 code =
     EmitTwoArgumentFallback code
       (\<lambda>result a b. vec_of_list
          [ PolynomialMultiply (lane 0 a :: u64) (lane 0 b :: u64) :: u64,
            handle_high_bits (lane 0 a) (lane 0 b) ])"

text \<open>The carry-less product of two 64-bit polynomials over GF(2), at 128 bits: the
  exclusive or of \<open>rhs\<close> shifted left by \<open>i\<close> for every set bit \<open>i\<close> of \<open>lhs\<close>.\<close>

definition clmul128 :: "u64 \<Rightarrow> u64 \<Rightarrow> xword" where
  "clmul128 lhs rhs =
     fold (\<lambda>i acc. if bit lhs i then acc XOR push_bit i (ucast rhs) else acc) [0..<64] 0"

section \<open>Element access\<close>

text \<open>
  \<^verbatim>\<open>GetElementN\<close>: the index is the immediate \<^verbatim>\<open>args[1].GetImmediateU8()\<close>. For index 0 the
  emitter returns early after \<^verbatim>\<open>DefineValue(inst, args[0])\<close>: no register is requested and
  nothing is emitted.
\<close>

definition EmitVectorGetElement8 :: "BlockOfCode \<Rightarrow> u8 \<Rightarrow> emitted" where
  "EmitVectorGetElement8 code index =
     (if index = 0 then \<lparr> use_xmm = [], use_gpr = [], insns = [], define_value = DefArg 0 \<rparr>
      else
        let source = Xmm ''source''; dest = Gpr ''dest''
        in \<lparr> use_xmm = [(source, 0)], use_gpr = [],
             insns =
               (if DoesCpuSupport code tSSE41 then [ pextrb dest source (unat index) ]
                else [ pextrw dest source (unat index div 2) ] @
                     (if unat index mod 2 = 1 then [ shr32 dest 8 ] else [])),
             define_value = DefGpr dest \<rparr>)"

definition EmitVectorGetElement16 :: "BlockOfCode \<Rightarrow> u8 \<Rightarrow> emitted" where
  "EmitVectorGetElement16 code index =
     (if index = 0 then \<lparr> use_xmm = [], use_gpr = [], insns = [], define_value = DefArg 0 \<rparr>
      else
        let source = Xmm ''source''; dest = Gpr ''dest''
        in \<lparr> use_xmm = [(source, 0)], use_gpr = [],
             insns = [ pextrw dest source (unat index) ],
             define_value = DefGpr dest \<rparr>)"

definition EmitVectorGetElement32 :: "BlockOfCode \<Rightarrow> u8 \<Rightarrow> emitted" where
  "EmitVectorGetElement32 code index =
     (if index = 0 then \<lparr> use_xmm = [], use_gpr = [], insns = [], define_value = DefArg 0 \<rparr>
      else
        let dest = Gpr ''dest''; source = Xmm ''source''
        in \<lparr> use_xmm = [(source, 0)], use_gpr = [],
             insns =
               (if DoesCpuSupport code tSSE41 then [ pextrd dest source (unat index) ]
                else [ pshufd source (R source) (unat index),
                       movd_to_gpr dest source ]),
             define_value = DefGpr dest \<rparr>)"

definition EmitVectorGetElement64 :: "BlockOfCode \<Rightarrow> u8 \<Rightarrow> emitted" where
  "EmitVectorGetElement64 code index =
     (if index = 0 then \<lparr> use_xmm = [], use_gpr = [], insns = [], define_value = DefArg 0 \<rparr>
      else
        let dest = Gpr ''dest''; source = Xmm ''source''
        in \<lparr> use_xmm = [(source, 0)], use_gpr = [],
             insns =
               (if DoesCpuSupport code tSSE41 then [ pextrq dest source 1 ]
                else [ punpckhqdq source (R source),
                       movq_to_gpr dest source ]),
             define_value = DefGpr dest \<rparr>)"

text \<open>Element \<open>i\<close> of a \<^verbatim>\<open>VectorArray<T>\<close> over a vector, where there is one: a 128-bit
  vector has \<open>128 div bit-width\<close> lanes.\<close>

definition element :: "nat \<Rightarrow> xword \<Rightarrow> 'a::len word option" where
  "element i v = (if i < 128 div LENGTH('a) then Some (lane i v) else None)"

section \<open>Comparison, maximum, multiplication and broadcast with several lowerings\<close>

definition EmitVectorEqual64 :: "BlockOfCode \<Rightarrow> emitted" where
  "EmitVectorEqual64 code =
     (if DoesCpuSupport code tSSE41 then EmitVectorOperation pcmpeqq
      else
        let xmm_a = Xmm ''xmm_a''; xmm_b = Xmm ''xmm_b''; tmp = Xmm ''tmp''
        in \<lparr> use_xmm = [(xmm_a, 0), (xmm_b, 1)], use_gpr = [],
             insns =
               [ pcmpeqd xmm_a (R xmm_b),
                 pshufd tmp (R xmm_a) 0b10110001,
                 pand xmm_a (R tmp) ],
             define_value = DefXmm xmm_a \<rparr>)"

definition EmitVectorMaxU16 :: "BlockOfCode \<Rightarrow> emitted" where
  "EmitVectorMaxU16 code =
     (if DoesCpuSupport code tSSE41 then EmitVectorOperation pmaxuw
      else
        let a = Xmm ''a''; b = Xmm ''b''
        in \<lparr> use_xmm = [(a, 0), (b, 1)], use_gpr = [],
             insns =
               [ psubusw a (R b),
                 paddw a (R b) ],
             define_value = DefXmm a \<rparr>)"

definition EmitVectorMultiply64 :: "BlockOfCode \<Rightarrow> emitted" where
  "EmitVectorMultiply64 code =
     (if DoesCpuSupport code tAVX512DQ \<and> DoesCpuSupport code tAVX512VL then
        EmitAVXVectorOperation vpmullq
      else if DoesCpuSupport code tSSE41 then
        let a = Xmm ''a''; b = Xmm ''b''; tmp1 = Gpr ''tmp1''; tmp2 = Gpr ''tmp2''
        in \<lparr> use_xmm = [(a, 0), (b, 1)], use_gpr = [],
             insns =
               [ movq_to_gpr tmp1 a,
                 movq_to_gpr tmp2 b,
                 imul tmp2 tmp1,
                 pextrq tmp1 a 1,
                 movq_to_xmm a tmp2,
                 pextrq tmp2 b 1,
                 imul tmp1 tmp2,
                 pinsrq a tmp1 1 ],
             define_value = DefXmm a \<rparr>
      else
        let a = Xmm ''a''; b = Xmm ''b''; tmp1 = Xmm ''tmp1''; tmp2 = Xmm ''tmp2''; tmp3 = Xmm ''tmp3''
        in \<lparr> use_xmm = [(a, 0), (b, 1)], use_gpr = [],
             insns =
               [ movdqa tmp1 (R a),
                 movdqa tmp2 (R a),
                 movdqa tmp3 (R b),
                 psrlq tmp1 32,
                 psrlq tmp3 32,
                 pmuludq tmp2 (R b),
                 pmuludq tmp3 (R a),
                 pmuludq b (R tmp1),
                 paddq b (R tmp3),
                 psllq b 32,
                 paddq tmp2 (R b) ],
             define_value = DefXmm tmp2 \<rparr>)"

definition EmitVectorBroadcastLower8 :: "BlockOfCode \<Rightarrow> emitted" where
  "EmitVectorBroadcastLower8 code =
     (let a = Xmm ''a''; tmp = Xmm ''tmp''
      in \<lparr> use_xmm = [(a, 0)], use_gpr = [],
           insns =
             (if DoesCpuSupport code tAVX2 then
                [ vpbroadcastb a (R a),
                  vmovq a (R a) ]
              else if DoesCpuSupport code tSSSE3 then
                [ pxor tmp (R tmp),
                  pshufb a (R tmp),
                  movq a (R a) ]
              else
                [ punpcklbw a (R a),
                  pshuflw a (R a) 0 ]),
           define_value = DefXmm a \<rparr>)"

section \<open>Absolute value\<close>





section \<open>Saturating operations\<close>









definition EmitVectorSignedSaturatedDoublingMultiplyReturnHigh16 :: "BlockOfCode \<Rightarrow> emitted" where
  "EmitVectorSignedSaturatedDoublingMultiplyReturnHigh16 code =
     (let x = Xmm ''x''; y = Xmm ''y''; tmp = Xmm ''tmp''; mask = Gpr ''mask''
      in \<lparr> use_xmm = [(x, 0), (y, 1)], use_gpr = [],
           insns =
             [ movdqa tmp (R x),
               pmulhw tmp (R y),
               paddw tmp (R tmp),
               pmullw y (R x),
               psrlw y 15,
               por y (R tmp),
               movdqa x (MConst 0x8000800080008000 0x8000800080008000),
               pcmpeqw x (R y),
               movdqa tmp (R x),
               pxor x (R y),
               pmovmskb mask tmp,
               test32 mask 0b1010101010101010,
               setnz mask,
               or_byte (r15_plus (offsetof_fpsr_qc code)) mask ],
           define_value = DefXmm x \<rparr>)"






















section \<open>Reference functions of the saturating operations\<close>

text \<open>The high half of the exact doubled product of two signed lanes.\<close>

definition doubling_multiply_high :: "'a::len word \<Rightarrow> 'a word \<Rightarrow> 'a word" where
  "doubling_multiply_high a b = word_of_int ((2 * sint a * sint b) div 2 ^ LENGTH('a))"






section \<open>Lanes: basic facts\<close>

lemma bit_lane_iff:
  "bit (lane i v :: 'a::len word) n \<longleftrightarrow> n < LENGTH('a) \<and> bit v (i * LENGTH('a) + n)"
  by (auto simp add: lane_def bit_simps ac_simps)

lemma bit_vec_of_list_iff:
  "bit (vec_of_list (ws :: 'a::len word list)) n \<longleftrightarrow>
     n < 128 \<and> n div LENGTH('a) < length ws \<and> bit (ws ! (n div LENGTH('a))) (n mod LENGTH('a))"
  by (simp add: vec_of_list_def bit_word_of_int_iff bit_horner_sum_uint_exp_iff)

lemma bit_vec_of_iff:
  "bit (vec_of (f :: nat \<Rightarrow> 'a::len word)) n \<longleftrightarrow>
     n < 128 \<and> n div LENGTH('a) < 128 div LENGTH('a) \<and> bit (f (n div LENGTH('a))) (n mod LENGTH('a))"
  by (auto simp add: vec_of_def bit_vec_of_list_iff)

lemma lane_bound:
  assumes "i < 128 div LENGTH('a::len)" "n < LENGTH('a)"
  shows "i * LENGTH('a) + n < 128"
proof -
  have "Suc i \<le> 128 div LENGTH('a)" using assms by simp
  then have "Suc i * LENGTH('a) \<le> 128 div LENGTH('a) * LENGTH('a)" by (rule mult_le_mono1)
  also have "\<dots> \<le> 128" by simp
  finally show ?thesis using assms by simp
qed

lemma lane_vec_of [simp]:
  "i < 128 div LENGTH('a) \<Longrightarrow> lane i (vec_of f) = (f i :: 'a::len word)"
  by (rule bit_word_eqI) (auto simp add: bit_lane_iff bit_vec_of_iff lane_bound)

lemma vec_eqI:
  assumes "LENGTH('a::len) dvd 128"
    and "\<And>i. i < 128 div LENGTH('a) \<Longrightarrow> (lane i v :: 'a word) = lane i w"
  shows "v = w"
proof (rule bit_word_eqI)
  fix n assume "n < LENGTH(128)"
  then have n: "n < 128" by simp
  let ?L = "LENGTH('a)"
  have "n div ?L < 128 div ?L"
    using assms(1) n by (auto simp add: less_mult_imp_div_less elim!: dvdE)
  then have e: "(lane (n div ?L) v :: 'a word) = lane (n div ?L) w" by (rule assms(2))
  have "bit (lane (n div ?L) v :: 'a word) (n mod ?L) = bit (lane (n div ?L) w :: 'a word) (n mod ?L)"
    by (simp only: e)
  then show "bit v n = bit w n"
    by (simp add: bit_lane_iff)
qed

lemma vec_of_lane [simp]:
  "LENGTH('a::len) dvd 128 \<Longrightarrow> vec_of (\<lambda>i. lane i v :: 'a word) = v"
  by (rule vec_eqI [where 'a='a]) simp_all

lemma lane_transform2 [simp]:
  "i < 128 div LENGTH('c) \<Longrightarrow>
   lane i (transform2 f a b) = (f (lane i a) (lane i b) :: 'c::len word)"
  by (simp add: transform2_def)

lemma lane_transform1 [simp]:
  "i < 128 div LENGTH('c) \<Longrightarrow>
   lane i (transform1 f a) = (f (lane i a) :: 'c::len word)"
  by (simp add: transform1_def)

section \<open>Shifts as arithmetic\<close>

lemma signed_drop_bit_div: "signed_drop_bit n (x :: 'a::len word) = word_of_int (sint x div 2 ^ n)"
proof -
  have "signed_drop_bit n x = word_of_int (sint (signed_drop_bit n x))" by simp
  also have "\<dots> = word_of_int (sint x div 2 ^ n)"
    by (simp only: sint_signed_drop_bit_eq drop_bit_eq_div)
  finally show ?thesis .
qed

lemma drop_bit_div: "drop_bit n (x :: 'a::len word) = word_of_int (uint x div 2 ^ n)"
proof -
  have "uint (drop_bit n x) = int (unat (drop_bit n x))" by simp
  also have "\<dots> = int (unat x div 2 ^ n)" unfolding unat_drop_bit_eq by (simp add: drop_bit_eq_div)
  also have "\<dots> = uint x div 2 ^ n" by (simp add: zdiv_int)
  finally show ?thesis by (metis word_of_int_uint)
qed

lemma push_bit_mult: "push_bit n (x :: 'a::len word) = word_of_int (uint x * 2 ^ n)"
  by (simp add: push_bit_eq_mult)

section \<open>Scalar fallbacks return what the lambda computes\<close>

lemma result_EmitTwoArgumentFallback:
  "result_of (EmitTwoArgumentFallback code lambda) xa ga s = lambda (frame s 0) (xa 0) (xa 1)"
  by (simp add: result_of_def run_def bind_args_def EmitTwoArgumentFallback_def Let_def
      set_xmm_def set_gpr_def set_frame_def cell_of_def)

lemma result_EmitOneArgumentFallback:
  "result_of (EmitOneArgumentFallback code lambda) xa ga s = lambda (frame s 0) (xa 0)"
  by (simp add: result_of_def run_def bind_args_def EmitOneArgumentFallback_def Let_def
      set_xmm_def set_gpr_def set_frame_def cell_of_def)

section \<open>Dynamic per-lane shifts\<close>

lemma LogicalVShift_contract: "LogicalVShift is_signed x y = vshift_contract is_signed x y"
  unfolding LogicalVShift_def vshift_contract_def Let_def
  by (auto simp add: signed_drop_bit_div drop_bit_div push_bit_mult nat_diff_distrib nat_minus_as_int)

text \<open>
  C6. Every lane of the result of \<open>LogicalVShift{S,U}{8,16,32,64}\<close> is the contract
  applied to the corresponding lanes of the operands: with the shift amount read as a
  signed byte, a shift of at least the bit width gives 0 (for an unsigned lane in either
  direction, for a signed lane to the left), a signed lane shifted right by the bit
  width or more keeps only its sign (shifted arithmetically by bit width - 1), a
  negative shift in range shifts right (arithmetically for signed, logically for
  unsigned lanes) and a non-negative shift in range shifts left modulo
  \<open>2 ^ bit-width\<close>.
\<close>

theorem LogicalVShift_lanes:
  "result_of (EmitVectorLogicalVShiftS8 code) xa ga s
     = vec_of (\<lambda>i. vshift_contract True (lane i (xa 0) :: u8) (lane i (xa 1)))
   \<and> result_of (EmitVectorLogicalVShiftS16 code) xa ga s
     = vec_of (\<lambda>i. vshift_contract True (lane i (xa 0) :: u16) (lane i (xa 1)))
   \<and> result_of (EmitVectorLogicalVShiftS32 code) xa ga s
     = vec_of (\<lambda>i. vshift_contract True (lane i (xa 0) :: u32) (lane i (xa 1)))
   \<and> result_of (EmitVectorLogicalVShiftS64 code) xa ga s
     = vec_of (\<lambda>i. vshift_contract True (lane i (xa 0) :: u64) (lane i (xa 1)))
   \<and> result_of (EmitVectorLogicalVShiftU8 code) xa ga s
     = vec_of (\<lambda>i. vshift_contract False (lane i (xa 0) :: u8) (lane i (xa 1)))
   \<and> result_of (EmitVectorLogicalVShiftU16 code) xa ga s
     = vec_of (\<lambda>i. vshift_contract False (lane i (xa 0) :: u16) (lane i (xa 1)))
   \<and> result_of (EmitVectorLogicalVShiftU32 code) xa ga s
     = vec_of (\<lambda>i. vshift_contract False (lane i (xa 0) :: u32) (lane i (xa 1)))
   \<and> result_of (EmitVectorLogicalVShiftU64 code) xa ga s
     = vec_of (\<lambda>i. vshift_contract False (lane i (xa 0) :: u64) (lane i (xa 1)))"
  by (simp add: EmitVectorLogicalVShiftS8_def EmitVectorLogicalVShiftS16_def
      EmitVectorLogicalVShiftS32_def EmitVectorLogicalVShiftS64_def
      EmitVectorLogicalVShiftU8_def EmitVectorLogicalVShiftU16_def
      EmitVectorLogicalVShiftU32_def EmitVectorLogicalVShiftU64_def
      result_EmitTwoArgumentFallback transform2_def LogicalVShift_contract)


section \<open>Lanes under bitwise operations; constants\<close>

lemma lane_and [simp]: "lane i (a AND b) = (lane i a AND lane i b :: 'a::len word)"
  by (rule bit_word_eqI) (auto simp add: bit_lane_iff bit_and_iff)

lemma lane_or [simp]: "lane i (a OR b) = (lane i a OR lane i b :: 'a::len word)"
  by (rule bit_word_eqI) (auto simp add: bit_lane_iff bit_or_iff)

lemma lane_xor [simp]: "lane i (a XOR b) = (lane i a XOR lane i b :: 'a::len word)"
  by (rule bit_word_eqI) (auto simp add: bit_lane_iff bit_xor_iff)

lemma lane_zero [simp]: "lane i 0 = 0"
  by (simp add: lane_def)

lemma mconst_01_8: "mconst 0x0101010101010101 0x0101010101010101 = vec_of (\<lambda>_. 1 :: u8)"
  by code_simp

lemma mconst_01_16: "mconst 0x0001000100010001 0x0001000100010001 = vec_of (\<lambda>_. 1 :: u16)"
  by code_simp

lemmas exec_defs = result_of_def run_def bind_args_def set_xmm_def set_gpr_def set_frame_def cell_of_def Let_def


lemma transform2_vec_of_const:
  "LENGTH('c::len) dvd 128 \<Longrightarrow> LENGTH('a::len) = LENGTH('c) \<Longrightarrow> LENGTH('b::len) = LENGTH('c) \<Longrightarrow>
   transform2 f (vec_of (\<lambda>_. x :: 'a word)) (vec_of (\<lambda>_. y :: 'b word)) = vec_of (\<lambda>_. f x y :: 'c word)"
  by (rule vec_eqI [where 'a='c]) simp_all

lemma mconst_FF_8: "mconst 0xFFFFFFFFFFFFFFFF 0xFFFFFFFFFFFFFFFF = vec_of (\<lambda>_. 0xFF :: u8)"
  by code_simp

lemma mconst_80_8: "mconst 0x8080808080808080 0x8080808080808080 = vec_of (\<lambda>_. 0x80 :: u8)"
  by code_simp

section \<open>Halving add\<close>

lemma exec_halving8:
  "result_of (EmitVectorHalvingAddU8 code) xa ga s =
     transform2 ((-) :: u8 \<Rightarrow> _) (transform2 (pavg :: u8 \<Rightarrow> _) (xa 1) (xa 0))
        ((xa 0 XOR xa 1) AND mconst 0x0101010101010101 0x0101010101010101)"
  by (simp add: EmitVectorHalvingAddU8_def EmitVectorHalvingAddUnsigned_def exec_defs)

lemma exec_halving16:
  "result_of (EmitVectorHalvingAddU16 code) xa ga s =
     transform2 ((-) :: u16 \<Rightarrow> _) (transform2 (pavg :: u16 \<Rightarrow> _) (xa 1) (xa 0))
        ((xa 0 XOR xa 1) AND mconst 0x0001000100010001 0x0001000100010001)"
  by (simp add: EmitVectorHalvingAddU16_def EmitVectorHalvingAddUnsigned_def exec_defs)

lemma exec_halving32:
  "result_of (EmitVectorHalvingAddU32 code) xa ga s =
     transform2 ((+) :: u32 \<Rightarrow> _) (xa 1 AND xa 0)
        (transform1 (drop_bit 1 :: u32 \<Rightarrow> _) (xa 0 XOR xa 1))"
  by (simp add: EmitVectorHalvingAddU32_def EmitVectorHalvingAddUnsigned_def exec_defs)

lemma even_unat_iff: "even (unat x) \<longleftrightarrow> even (x :: 'a::len word)"
proof -
  have "bit (unat x) 0 = bit x 0" by (simp add: bit_unsigned_iff)
  then show ?thesis by (simp add: bit_0)
qed

lemma xor_and_1: "(x XOR y) AND 1 = (of_nat ((unat x + unat y) mod 2) :: 'a::len word)"
proof -
  have "(x XOR y) AND 1 = of_bool (odd (x XOR y))" by (simp add: and_one_eq mod_2_eq_odd)
  also have "odd (x XOR y) \<longleftrightarrow> odd (unat x + unat y)"
    by (simp add: even_xor_iff even_unat_iff)
  also have "(of_bool (odd (unat x + unat y)) :: 'a word) = of_nat ((unat x + unat y) mod 2)"
    by (simp add: mod_2_eq_odd)
  finally show ?thesis .
qed

lemma half_up_minus_parity: "Suc n div 2 - n mod 2 = (n::nat) div 2"
  by (cases "even n") (auto elim!: evenE oddE)

lemma parity_le_half_up: "n mod 2 \<le> Suc n div 2"
  by (cases "even n") (auto elim!: evenE oddE)

lemma pavg_sub: "pavg y x - ((x XOR y) AND 1) = halving_add x (y :: 'a::len word)"
proof -
  let ?n = "unat x + unat y"
  have "(of_nat (Suc ?n div 2) :: 'a word) - of_nat (?n mod 2) = of_nat (Suc ?n div 2 - ?n mod 2)"
    by (rule of_nat_diff [symmetric]) (rule parity_le_half_up)
  then have "(of_nat (Suc ?n div 2) :: 'a word) - of_nat (?n mod 2) = of_nat (?n div 2)"
    by (simp only: half_up_minus_parity)
  then show ?thesis
    by (simp add: pavg_def xor_and_1 halving_add_def add.commute)
qed

lemma int_add_and_xor: "(a::int) + b = 2 * (a AND b) + (a XOR b)"
proof -
  have "(a AND b) + (a XOR b) = (a AND b) OR (a XOR b)"
    by (rule disjunctive_add) (auto simp add: bit_simps)
  also have "\<dots> = a OR b"
    by (rule bit_eqI) (auto simp add: bit_simps)
  finally have "(a AND b) + (a OR b) = 2 * (a AND b) + (a XOR b)" by simp
  then show ?thesis by (simp only: plus_and_or)
qed

lemma halving_add_int: "halving_add x y = (word_of_int ((uint x + uint y) div 2) :: 'a::len word)"
proof -
  have "int ((unat x + unat y) div 2) = (uint x + uint y) div 2"
    by (simp add: zdiv_int)
  moreover have "halving_add x y = (word_of_int (int ((unat x + unat y) div 2)) :: 'a word)"
    by (simp add: halving_add_def)
  ultimately show ?thesis by simp
qed

lemma and_plus_half_xor: "(y AND x) + drop_bit (Suc 0) (x XOR y) = halving_add x (y :: 'a::len word)"
proof -
  have "(uint x + uint y) div 2 = (uint x AND uint y) + (uint x XOR uint y) div 2"
    by (subst int_add_and_xor) simp
  then have "halving_add x y = word_of_int (uint (x AND y)) + word_of_int (uint (x XOR y) div 2)"
    by (simp add: halving_add_int uint_and uint_xor)
  also have "word_of_int (uint (x XOR y) div 2) = drop_bit 1 (x XOR y)"
    by (simp add: drop_bit_div)
  finally show ?thesis by (simp add: and.commute)
qed

lemma halving8: "result_of (EmitVectorHalvingAddU8 code) xa ga s = transform2 (halving_add :: u8 \<Rightarrow> _) (xa 0) (xa 1)"
  unfolding exec_halving8
  by (rule vec_eqI[where 'a=8]) (simp_all add: mconst_01_8 pavg_sub)

lemma halving16: "result_of (EmitVectorHalvingAddU16 code) xa ga s = transform2 (halving_add :: u16 \<Rightarrow> _) (xa 0) (xa 1)"
  unfolding exec_halving16
  by (rule vec_eqI[where 'a=16]) (simp_all add: mconst_01_16 pavg_sub)

lemma halving32: "result_of (EmitVectorHalvingAddU32 code) xa ga s = transform2 (halving_add :: u32 \<Rightarrow> _) (xa 0) (xa 1)"
  unfolding exec_halving32
  by (rule vec_eqI[where 'a=32]) (simp_all add: and_plus_half_xor del: drop_bit_xor)

text \<open>
  C9. For the lane widths 8, 16 and 32, every lane of \<open>HalvingAddU\<close> is the exact sum of the
  two unsigned lanes (taken in the naturals, so without wrapping) shifted right by one;
  and \<open>HalvingAddU8\<close> of sixteen bytes \<open>0xFF\<close> and sixteen bytes \<open>0x01\<close> is sixteen bytes
  \<open>0x80\<close>.
\<close>

theorem HalvingAddU_exact:
  "result_of (EmitVectorHalvingAddU8 code) xa ga s
     = vec_of (\<lambda>i. of_nat ((unat (lane i (xa 0) :: u8) + unat (lane i (xa 1) :: u8)) div 2) :: u8)
   \<and> result_of (EmitVectorHalvingAddU16 code) xa ga s
     = vec_of (\<lambda>i. of_nat ((unat (lane i (xa 0) :: u16) + unat (lane i (xa 1) :: u16)) div 2) :: u16)
   \<and> result_of (EmitVectorHalvingAddU32 code) xa ga s
     = vec_of (\<lambda>i. of_nat ((unat (lane i (xa 0) :: u32) + unat (lane i (xa 1) :: u32)) div 2) :: u32)
   \<and> result_of (EmitVectorHalvingAddU8 code)
       (\<lambda>i. if i = 0 then mconst 0xFFFFFFFFFFFFFFFF 0xFFFFFFFFFFFFFFFF
             else mconst 0x0101010101010101 0x0101010101010101) ga s
     = mconst 0x8080808080808080 0x8080808080808080"
proof (intro conjI)
  show "result_of (EmitVectorHalvingAddU8 code)
       (\<lambda>i. if i = 0 then mconst 0xFFFFFFFFFFFFFFFF 0xFFFFFFFFFFFFFFFF
             else mconst 0x0101010101010101 0x0101010101010101) ga s
     = mconst 0x8080808080808080 0x8080808080808080"
    by (simp add: halving8 mconst_FF_8 mconst_80_8 mconst_01_8 transform2_vec_of_const
        halving_add_def)
qed (simp_all add: halving8 halving16 halving32 transform2_def halving_add_def)

section \<open>Polynomial multiplication\<close>

lemma vec_of_list2_xor:
  "vec_of_list [a, b :: u64] XOR vec_of_list [c, d] = vec_of_list [a XOR c, b XOR d]"
  by (rule bit_word_eqI) (auto simp add: bit_vec_of_list_iff bit_xor_iff nth_Cons split: nat.splits)

lemma push_bit_ucast_halves:
  assumes "i < 64"
  shows "push_bit i (ucast (rhs :: u64) :: xword) = vec_of_list [push_bit i rhs, drop_bit (64 - i) rhs]"
proof (rule bit_word_eqI)
  fix n assume "n < LENGTH(128)"
  then have n: "n < 128" by simp
  show "bit (push_bit i (ucast rhs :: xword)) n = bit (vec_of_list [push_bit i rhs, drop_bit (64 - i) rhs]) n"
  proof (cases "n < 64")
    case True
    then show ?thesis using n assms
      by (auto simp add: bit_vec_of_list_iff bit_simps)
  next
    case False
    then have d: "n div 64 = 1" "n mod 64 = n - 64" using n by (simp_all add: div_if le_mod_geq)
    show ?thesis using n assms False
      by (auto simp add: bit_vec_of_list_iff bit_simps d)
  qed
qed

lemma clmul_fold:
  assumes "\<forall>i \<in> set is. i < 64"
  shows "fold (\<lambda>i acc. if bit lhs i then acc XOR push_bit i (ucast (rhs :: u64) :: xword) else acc) is
            (vec_of_list [l, h])
         = vec_of_list
            [fold (\<lambda>i res. if bit (lhs :: u64) i then res XOR push_bit i rhs else res) is l,
             fold (\<lambda>i res. if bit lhs i then res XOR drop_bit (64 - i) rhs else res) is h]"
  using assms
  by (induction "is" arbitrary: l h) (simp_all add: push_bit_ucast_halves vec_of_list2_xor)

lemma vec_of_list_zero2: "vec_of_list [0, 0 :: u64] = 0"
  by (simp add: vec_of_list_def)

lemma high_from_0:
  "fold (\<lambda>i res. if bit (lhs :: u64) i then res XOR drop_bit (64 - i) (rhs :: u64) else res) [0..<64] 0
   = handle_high_bits lhs rhs"
proof -
  have "[0..<64] = 0 # [1..<64]" by (simp add: upt_rec)
  then show ?thesis by (simp add: handle_high_bits_def)
qed

lemma PolynomialMultiply_64:
  "(PolynomialMultiply lhs rhs :: u64)
   = fold (\<lambda>i res. if bit (lhs :: u64) i then res XOR push_bit i rhs else res) [0..<64] 0"
  by (simp add: PolynomialMultiply_def cong del: if_weak_cong)

lemma clmul128_halves:
  "clmul128 lhs rhs = vec_of_list [PolynomialMultiply lhs rhs :: u64, handle_high_bits lhs rhs]"
proof -
  have "clmul128 lhs rhs
      = fold (\<lambda>i acc. if bit lhs i then acc XOR push_bit i (ucast rhs :: xword) else acc) [0..<64]
          (vec_of_list [0, 0 :: u64])"
    by (simp only: clmul128_def vec_of_list_zero2)
  also have "\<dots> = vec_of_list
            [fold (\<lambda>i res. if bit lhs i then res XOR push_bit i rhs else res) [0..<64] 0,
             fold (\<lambda>i res. if bit lhs i then res XOR drop_bit (64 - i) rhs else res) [0..<64] 0]"
    by (rule clmul_fold) simp
  finally show ?thesis
    by (simp only: high_from_0 PolynomialMultiply_64)
qed

text \<open>
  C8. \<open>PolynomialMultiplyLong64\<close> returns the 128-bit carry-less product of the low 64-bit
  lanes of its operands: the exclusive or, over the set bits \<open>i\<close> of the first, of the
  second shifted left by \<open>i\<close> at 128 bits. Being the whole register, the low 64 bits of
  the product are lane 0 of the result and the high 64 bits lane 1.
\<close>

theorem PolynomialMultiplyLong64_clmul:
  "result_of (EmitVectorPolynomialMultiplyLong64 code) xa ga s = clmul128 (lane 0 (xa 0)) (lane 0 (xa 1))"
  by (simp add: EmitVectorPolynomialMultiplyLong64_def result_EmitTwoArgumentFallback clmul128_halves)

section \<open>Element access\<close>

lemma lane_punpckhqdq_0: "(lane 0 (sem_punpckh TYPE(64) d s) :: u64) = lane 1 d"
  by (simp add: sem_punpckh_def)

lemma lane0_ucast_u64: "(lane 0 (ucast (g :: u64) :: xword) :: u64) = g"
  by (rule bit_word_eqI) (simp add: bit_lane_iff bit_simps)

lemma lane0_ucast: "(ucast (v :: xword) :: u64) = lane 0 v"
  by (simp add: lane_def)

lemma GetElement64_value:
  "result64 (EmitVectorGetElement64 code index) xa ga s
     = (if index = 0 then lane 0 (xa 0) else lane 1 (xa 0))"
  by (simp add: result64_def EmitVectorGetElement64_def exec_defs lane0_ucast_u64 lane0_ucast
      lane_punpckhqdq_0)

text \<open>
  C10. \<open>GetElement64\<close> with a non-zero immediate index emits, on the SSE4.1 path, the single
  instruction \<open>pextrq dest, source, 1\<close> whatever the index; the value returned is lane
  \<open>imm\<close> of the operand exactly when \<open>imm\<close> is 0 or 1, and for every \<open>imm \<ge> 2\<close> (where the
  vector has no such lane) it is lane 1.
\<close>

theorem GetElement64_lane_1:
  "insns (EmitVectorGetElement64 code index)
     = (if index = 0 then []
        else if DoesCpuSupport code tSSE41 then [pextrq (Gpr ''dest'') (Xmm ''source'') 1]
        else [punpckhqdq (Xmm ''source'') (R (Xmm ''source'')),
              movq_to_gpr (Gpr ''dest'') (Xmm ''source'')])
   \<and> (Some (result64 (EmitVectorGetElement64 code index) xa ga s) = element (unat index) (xa 0))
       = (unat index < 2)
   \<and> result64 (EmitVectorGetElement64 code index) xa ga s
       = (if 2 \<le> unat index then lane 1 (xa 0) else lane (unat index) (xa 0))"
proof -
  have "unat index = 0 \<longleftrightarrow> index = 0" by (simp add: unat_eq_0)
  moreover have "unat index < 2 \<Longrightarrow> index \<noteq> 0 \<Longrightarrow> unat index = 1"
    using \<open>unat index = 0 \<longleftrightarrow> index = 0\<close> by linarith
  ultimately show ?thesis
    by (auto simp add: GetElement64_value element_def)
       (simp_all add: EmitVectorGetElement64_def Let_def)
qed

text \<open>
  C5, as stated, fails: for index 0 the result is the operand's own binding, so its bits
  above the lane are those of the vector. With \<open>v = 0x100\<close> (byte 0 is 0, byte 1 is 1) a
  consumer reading the result of \<open>GetElement8(v, 0)\<close> into a general purpose register
  reads \<open>0x100\<close>, not the zero-extension \<open>0\<close> of lane 0.
\<close>

theorem GetElement8_index0_not_zero_extended:
  "result64 (EmitVectorGetElement8 host0 0) (\<lambda>_. 0x100) (\<lambda>_. 0) machine0
     \<noteq> ucast (lane 0 (0x100 :: xword) :: u8)"
  by (simp add: result64_def result_of_def EmitVectorGetElement8_def lane_def)

text \<open>
  C5, amended. For every vector and every lane width 8, 16, 32, 64, \<open>GetElementN\<close> with
  immediate index 0 emits no machine code and binds its result to the binding of the
  operand: the result holds the vector itself, so its low \<open>N\<close> bits are lane 0 of the
  vector and the bits above are not zeroed.
\<close>

theorem GetElement_index0:
  "insns (EmitVectorGetElement8 code 0) = []
   \<and> define_value (EmitVectorGetElement8 code 0) = DefArg 0
   \<and> result_of (EmitVectorGetElement8 code 0) xa ga s = xa 0
   \<and> (lane 0 (result_of (EmitVectorGetElement8 code 0) xa ga s) :: u8) = lane 0 (xa 0)
   \<and> insns (EmitVectorGetElement16 code 0) = []
   \<and> define_value (EmitVectorGetElement16 code 0) = DefArg 0
   \<and> result_of (EmitVectorGetElement16 code 0) xa ga s = xa 0
   \<and> (lane 0 (result_of (EmitVectorGetElement16 code 0) xa ga s) :: u16) = lane 0 (xa 0)
   \<and> insns (EmitVectorGetElement32 code 0) = []
   \<and> define_value (EmitVectorGetElement32 code 0) = DefArg 0
   \<and> result_of (EmitVectorGetElement32 code 0) xa ga s = xa 0
   \<and> (lane 0 (result_of (EmitVectorGetElement32 code 0) xa ga s) :: u32) = lane 0 (xa 0)
   \<and> insns (EmitVectorGetElement64 code 0) = []
   \<and> define_value (EmitVectorGetElement64 code 0) = DefArg 0
   \<and> result_of (EmitVectorGetElement64 code 0) xa ga s = xa 0
   \<and> (lane 0 (result_of (EmitVectorGetElement64 code 0) xa ga s) :: u64) = lane 0 (xa 0)"
  by (simp add: result_of_def EmitVectorGetElement8_def EmitVectorGetElement16_def
      EmitVectorGetElement32_def EmitVectorGetElement64_def)
section \<open>Saturating doubling multiply\<close>

lemma dmh_bits_int:
  fixes P :: int
  shows "drop_bit 15 (word_of_int P :: u16) OR 2 * (word_of_int (drop_bit 16 P) :: u16)
     = word_of_int (drop_bit 15 P)"
  apply (rule bit_word_eqI)
  subgoal for n
    by (cases n) (auto simp add: bit_simps)
  done

lemma dmh_bits:
  "drop_bit 15 (b * a) OR (pmulh a b + pmulh a b)
     = (word_of_int ((2 * sint a * sint b) div 2 ^ 16) :: u16)"
proof -
  let ?P = "sint a * sint b"
  have e1: "(2 * sint a * sint b) div 2 ^ 16 = drop_bit 15 ?P"
    by (simp add: drop_bit_eq_div)
  have e2: "pmulh a b + pmulh a b = 2 * (word_of_int (drop_bit 16 ?P) :: u16)"
    by (simp add: pmulh_def drop_bit_eq_div)
  have e3: "b * a = (word_of_int ?P :: u16)"
    by (simp add: mult.commute)
  show ?thesis
    unfolding e1 e2 e3 by (rule dmh_bits_int)
qed

lemma prod_bounds:
  fixes x y M :: int
  assumes "- M \<le> x" "x < M" "- M \<le> y" "y < M"
  shows "x * y \<le> M * M \<and> - (M * (M - 1)) \<le> x * y \<and> (x * y = M * M \<longleftrightarrow> x = - M \<and> y = - M)"
proof -
  have M: "0 < M" using assms by linarith
  define p where "p = x * y"
  define q where "q = M * (M - 1)"
  have MM: "M * M = q + M" by (simp add: q_def algebra_simps)
  have q0: "0 \<le> q" using M by (simp add: q_def)
  have q1: "(M - 1) * (M - 1) \<le> q" using M by (simp add: q_def algebra_simps)
  have both: "x = - M \<Longrightarrow> y = - M \<Longrightarrow> p = q + M" by (simp add: p_def q_def algebra_simps)
  consider "0 \<le> x" "0 \<le> y" | "x < 0" "y < 0" | "0 \<le> x" "y < 0" | "x < 0" "0 \<le> y" by linarith
  then have "p \<le> q + M \<and> - q \<le> p \<and> (p = q + M \<longleftrightarrow> x = - M \<and> y = - M)"
  proof cases
    case 1
    have "x * y \<le> (M - 1) * (M - 1)" using assms 1 by (intro mult_mono) auto
    then have a: "p \<le> q" using q1 by (simp add: p_def)
    have b: "0 \<le> p" using 1 by (simp add: p_def)
    show ?thesis using a b q0 M 1 by auto
  next
    case 2
    have b: "0 \<le> p" using 2 by (simp add: p_def mult_nonpos_nonpos)
    have c: "p \<le> q" if H: "\<not> (x = - M \<and> y = - M)"
    proof -
      from H assms have "- x \<le> M - 1 \<or> - y \<le> M - 1" by linarith
      then consider (a) "- x \<le> M - 1" | (b) "- y \<le> M - 1" by blast
      then have "(- x) * (- y) \<le> q"
      proof cases
        case a
        have "(- x) * (- y) \<le> (M - 1) * M" using a assms 2 M by (intro mult_mono) auto
        then show ?thesis by (simp add: q_def mult.commute)
      next
        case b
        have "(- x) * (- y) \<le> M * (M - 1)" using b assms 2 M by (intro mult_mono) auto
        then show ?thesis by (simp add: q_def)
      qed
      then show ?thesis by (simp add: p_def)
    qed
    show ?thesis
    proof (cases "x = - M \<and> y = - M")
      case True
      then show ?thesis using both q0 M by auto
    next
      case False
      then show ?thesis using c [OF False] b q0 M by auto
    qed
  next
    case 3
    have "x * (- y) \<le> (M - 1) * M" using assms 3 M by (intro mult_mono) auto
    then have a: "- q \<le> p" by (simp add: p_def q_def algebra_simps)
    have b: "p \<le> 0" using 3 by (simp add: p_def mult_nonneg_nonpos)
    show ?thesis using a b q0 M 3 by auto
  next
    case 4
    have "(- x) * y \<le> M * (M - 1)" using assms 4 M by (intro mult_mono) auto
    then have a: "- q \<le> p" by (simp add: p_def q_def algebra_simps)
    have b: "p \<le> 0" using 4 by (simp add: p_def mult_nonpos_nonneg)
    show ?thesis using a b q0 M 4 by auto
  qed
  then show ?thesis unfolding p_def MM q_def by simp
qed


lemma all_less_4: "(\<forall>k<4. P k) \<longleftrightarrow> P 0 \<and> P 1 \<and> P 2 \<and> P (3::nat)"
proof -
  have "(\<forall>k<4. P k) \<longleftrightarrow> (\<forall>k<Suc (Suc (Suc (Suc 0))). P k)" by (simp add: eval_nat_numeral)
  also have "\<dots> \<longleftrightarrow> P 0 \<and> P 1 \<and> P 2 \<and> P 3"
    by (simp only: All_less_Suc) (auto simp add: eval_nat_numeral)
  finally show ?thesis .
qed

lemma all_less_add: "(\<forall>k<n + n. P k) \<longleftrightarrow> (\<forall>k<n. P k) \<and> (\<forall>k<n. P (n + k))" for n :: nat
proof (intro iffI conjI allI impI)
  fix k assume H: "(\<forall>k<n. P k) \<and> (\<forall>k<n. P (n + k))" and k: "k < n + n"
  show "P k"
  proof (cases "k < n")
    case True with H show ?thesis by simp
  next
    case False
    then have "k - n < n" "k = n + (k - n)" using k by simp_all
    with H show ?thesis by metis
  qed
qed simp_all

lemma all_less_8:
  "(\<forall>k<8. P k) \<longleftrightarrow> P 0 \<and> P 1 \<and> P 2 \<and> P 3 \<and> P 4 \<and> P 5 \<and> P 6 \<and> P (7::nat)"
  using all_less_add [of 4 P] by (simp add: all_less_4)

lemma all_less_16:
  "(\<forall>k<16. P k) \<longleftrightarrow> P 0 \<and> P 1 \<and> P 2 \<and> P 3 \<and> P 4 \<and> P 5 \<and> P 6 \<and> P 7
     \<and> P 8 \<and> P 9 \<and> P 10 \<and> P 11 \<and> P 12 \<and> P 13 \<and> P 14 \<and> P (15::nat)"
  using all_less_add [of 8 P] by (simp add: all_less_8)

lemma bit_sem_pmovmskb:
  "bit (ucast (sem_pmovmskb v) :: u32) k \<longleftrightarrow> k < 16 \<and> bit (lane k v :: u8) 7"
  by (auto simp add: sem_pmovmskb_def bit_simps)

lemma minus_256: "(- 256 :: u64) = NOT (mask 8)"
  by (simp add: mask_eq_exp_minus_1 not_eq_complement)

lemma ucast_setnz_1 [simp]: "(ucast ((g :: u64) AND - 256 OR 1) :: u8) = 1"
  unfolding minus_256 by (rule bit_word_eqI) (auto simp add: bit_simps)

lemma ucast_setnz_0 [simp]: "(ucast ((g :: u64) AND - 256) :: u8) = 0"
  unfolding minus_256 by (rule bit_word_eqI) (auto simp add: bit_simps)

lemma test_zero_iff:
  "((ucast (sem_pmovmskb v) :: u32) AND m = 0) \<longleftrightarrow> (\<forall>k<16. \<not> (bit (lane k v :: u8) 7 \<and> bit m k))"
  by (auto simp add: bit_eq_iff [where ?'a = "32 word"] bit_and_iff bit_sem_pmovmskb)

lemma bit7_lane8: "k < 16 \<Longrightarrow> bit (lane k v :: u8) 7 \<longleftrightarrow> bit v (k * 8 + 7)"
  by (simp add: bit_lane_iff)


lemma test_mask_16:
  "((ucast (sem_pmovmskb v) :: u32) AND 0xAAAA = 0) \<longleftrightarrow> (\<forall>i<8. \<not> bit (lane i v :: u16) 15)"
  unfolding test_zero_iff all_less_16 all_less_8 by (simp add: bit_lane_iff)



lemma mconst_8000_16:
  "mconst 0x8000800080008000 0x8000800080008000 = vec_of (\<lambda>_. 0x8000 :: u16)"
  by code_simp

lemma mod_eq_half:
  fixes q M :: int
  assumes "q mod (2 * M) = M" "- M < q" "q \<le> M"
  shows "q = M"
proof (cases "0 \<le> q")
  case True
  then have "q mod (2 * M) = q" using assms by (intro mod_pos_pos_trivial) auto
  with assms show ?thesis by simp
next
  case False
  have "(q + 2 * M) mod (2 * M) = q + 2 * M" using False assms by (intro mod_pos_pos_trivial) auto
  then have "q mod (2 * M) = q + 2 * M" by simp
  with assms show ?thesis by simp
qed

lemma dmh_bits16:
  "drop_bit 15 (b * a) OR 2 * pmulh a b = (doubling_multiply_high a b :: u16)"
  using dmh_bits [of b a] by (simp add: doubling_multiply_high_def)

lemma dmh_min_iff:
  fixes a b :: u16
  shows "doubling_multiply_high a b = 0x8000 \<longleftrightarrow> a = 0x8000 \<and> b = 0x8000"
proof -
  define x where "x = sint a"
  define y where "y = sint b"
  have bnd: "- 32768 \<le> x" "x < 32768" "- 32768 \<le> y" "y < 32768"
    using sint_ge [of a] sint_lt [of a] sint_ge [of b] sint_lt [of b] by (simp_all add: x_def y_def)
  from prod_bounds [OF bnd]
  have p: "x * y \<le> 1073741824" "- 1073709056 \<le> x * y"
    "x * y = 1073741824 \<longleftrightarrow> x = - 32768 \<and> y = - 32768" by simp_all
  define p where "p = x * y"
  define q where "q = (2 * p) div 65536"
  have q: "- 32768 < q" "q \<le> 32768" "q = 32768 \<longleftrightarrow> p = 1073741824"
    using p unfolding q_def p_def by linarith+
  have "(word_of_int q :: u16) = 0x8000 \<longleftrightarrow> q = 32768"
  proof
    assume "(word_of_int q :: u16) = 0x8000"
    then have "(word_of_int q :: u16) = word_of_int 32768" by simp
    then have "q mod 65536 = 32768 mod 65536"
      unfolding word_of_int_eq_iff by (simp add: take_bit_eq_mod)
    then show "q = 32768" using q(1,2) mod_eq_half [of q 32768] by simp
  qed simp
  moreover have "x = - 32768 \<longleftrightarrow> a = 0x8000"
  proof -
    have "a = 0x8000 \<longleftrightarrow> sint a = sint (0x8000 :: u16)" by (auto intro: signed_word_eqI)
    also have "sint (0x8000 :: u16) = - 32768" by code_simp
    finally show ?thesis by (simp add: x_def)
  qed
  moreover have "y = - 32768 \<longleftrightarrow> b = 0x8000"
  proof -
    have "b = 0x8000 \<longleftrightarrow> sint b = sint (0x8000 :: u16)" by (auto intro: signed_word_eqI)
    also have "sint (0x8000 :: u16) = - 32768" by code_simp
    finally show ?thesis by (simp add: y_def)
  qed
  ultimately show ?thesis using q(3) p(3)
    by (simp add: doubling_multiply_high_def q_def p_def x_def y_def mult.assoc)
qed


lemma pcmpeq_xor_min16:
  "pcmpeq (0x8000 :: u16) r XOR r = (if r = 0x8000 then 0x7FFF else r)"
  by (simp add: pcmpeq_def mask_of_def)

lemma dmrh16_exec:
  "result_of (EmitVectorSignedSaturatedDoublingMultiplyReturnHigh16 code) xa ga s
     = transform2 (\<lambda>a b :: u16. pcmpeq 0x8000 (doubling_multiply_high a b)
                     XOR doubling_multiply_high a b :: u16) (xa 0) (xa 1)"
  apply (simp add: EmitVectorSignedSaturatedDoublingMultiplyReturnHigh16_def exec_defs mconst_8000_16)
  apply (rule vec_eqI [where 'a = 16])
  apply (simp_all add: dmh_bits16)
  done

lemma bit_pcmpeq_top:
  "bit (pcmpeq a b :: 'a::len word) (LENGTH('a) - Suc 0) \<longleftrightarrow> a = b"
  by (simp add: pcmpeq_def mask_of_def)

lemma bit_pcmpeq_16 [simp]: "bit (pcmpeq a b :: u16) 15 \<longleftrightarrow> a = b"
  using bit_pcmpeq_top [of a b] by simp

lemma dmh_min_iff': "(0x8000 :: u16) = doubling_multiply_high a b \<longleftrightarrow> a = 0x8000 \<and> b = 0x8000"
  using dmh_min_iff [of a b] by (simp only: eq_commute)

lemma dmrh16_flag:
  "fpsr_qc code (run (EmitVectorSignedSaturatedDoublingMultiplyReturnHigh16 code) xa ga s)
     = fpsr_qc code s OR of_bool (\<exists>i<8. lane i (xa 0) = (0x8000 :: u16) \<and> lane i (xa 1) = (0x8000 :: u16))"
  by (auto simp add: EmitVectorSignedSaturatedDoublingMultiplyReturnHigh16_def exec_defs fpsr_qc_def
        mconst_8000_16 test_mask_16 dmh_bits16 dmh_min_iff')


text \<open>
  C4. Each 16-bit lane of \<^verbatim>\<open>SignedSaturatedDoublingMultiplyReturnHigh16\<close> is the high half of
  the exact product \<open>2 * a * b\<close> of the signed lanes, except that \<open>a = b = 0x8000\<close> gives
  \<open>0x7FFF\<close>; the byte or-ed into \<open>fpsr_qc\<close> is 1 when some lane pair is \<open>a = b = 0x8000\<close>
  and 0 otherwise. With \<open>0x8000\<close> in all lanes of both operands every lane is \<open>0x7FFF\<close>
  and 1 is or-ed into the flag.
\<close>

theorem DoublingMultiplyReturnHigh16_saturates:
  "result_of (EmitVectorSignedSaturatedDoublingMultiplyReturnHigh16 code) xa ga s
     = vec_of (\<lambda>i. if lane i (xa 0) = (0x8000 :: u16) \<and> lane i (xa 1) = (0x8000 :: u16) then 0x7FFF
                   else (word_of_int ((2 * sint (lane i (xa 0) :: u16) * sint (lane i (xa 1) :: u16)) div 2 ^ 16) :: u16))
   \<and> fpsr_qc code (run (EmitVectorSignedSaturatedDoublingMultiplyReturnHigh16 code) xa ga s)
     = fpsr_qc code s OR of_bool (\<exists>i<8. lane i (xa 0) = (0x8000 :: u16) \<and> lane i (xa 1) = (0x8000 :: u16))
   \<and> result_of (EmitVectorSignedSaturatedDoublingMultiplyReturnHigh16 code)
         (\<lambda>_. vec_of (\<lambda>_. 0x8000 :: u16)) ga s = vec_of (\<lambda>_. 0x7FFF :: u16)
   \<and> fpsr_qc code (run (EmitVectorSignedSaturatedDoublingMultiplyReturnHigh16 code)
         (\<lambda>_. vec_of (\<lambda>_. 0x8000 :: u16)) ga s) = fpsr_qc code s OR 1"
proof (intro conjI)
  show "result_of (EmitVectorSignedSaturatedDoublingMultiplyReturnHigh16 code) xa ga s
     = vec_of (\<lambda>i. if lane i (xa 0) = (0x8000 :: u16) \<and> lane i (xa 1) = (0x8000 :: u16) then 0x7FFF
                   else (word_of_int ((2 * sint (lane i (xa 0) :: u16) * sint (lane i (xa 1) :: u16)) div 2 ^ 16) :: u16))"
    unfolding dmrh16_exec
    by (rule vec_eqI [where 'a = 16]) (simp_all add: pcmpeq_xor_min16 dmh_min_iff, simp add: doubling_multiply_high_def)
  show "result_of (EmitVectorSignedSaturatedDoublingMultiplyReturnHigh16 code)
         (\<lambda>_. vec_of (\<lambda>_. 0x8000 :: u16)) ga s = vec_of (\<lambda>_. 0x7FFF :: u16)"
    unfolding dmrh16_exec
    by (rule vec_eqI [where 'a = 16]) (simp_all add: pcmpeq_xor_min16 dmh_min_iff)
  have "\<exists>i<8::nat. True" by (rule exI [of _ 0]) simp
  then show "fpsr_qc code (run (EmitVectorSignedSaturatedDoublingMultiplyReturnHigh16 code)
         (\<lambda>_. vec_of (\<lambda>_. 0x8000 :: u16)) ga s) = fpsr_qc code s OR 1"
    unfolding dmrh16_flag by auto
qed (rule dmrh16_flag)

section \<open>The saturation flag\<close>

lemma bit_pcmpeq_8 [simp]: "bit (pcmpeq a b :: u8) 7 \<longleftrightarrow> a = b"
  using bit_pcmpeq_top [of a b] by simp

lemma bit_pcmpeq_32 [simp]: "bit (pcmpeq a b :: u32) 31 \<longleftrightarrow> a = b"
  using bit_pcmpeq_top [of a b] by simp

lemma bit_pcmpeq_64 [simp]: "bit (pcmpeq a b :: u64) 63 \<longleftrightarrow> a = b"
  using bit_pcmpeq_top [of a b] by simp












lemma list_ex_upt2: "list_ex P [0..<2] \<longleftrightarrow> (\<exists>i<2. P i)"
  by (auto simp add: list_ex_iff)












































































end
